theory Spec2Isabelle
  imports Complex_Main
begin

section \<open>Cosmoglobe: validation layer and frequency-scaling kernels\<close>

text \<open>
  The development embeds the validation layer of \<^verbatim>\<open>sky/base_components.py\<close> and the
  frequency-scaling kernels of \<^verbatim>\<open>sky/components.py\<close>, \<^verbatim>\<open>sky/components/cmb.py\<close> and
  \<^verbatim>\<open>models/ff.py\<close>.

  Conventions of the embedding:
  \<^item> in the scaling kernels of the power laws, the blackbody, free-free and the CMB a
    numpy float is a real in the range of its format, an infinity or \<open>nan\<close>: an operation
    that overflows gives an infinity, one that underflows gives zero, and \<open>inf\<close> and \<open>nan\<close>
    propagate as in IEEE 754; the rounding of a result inside the range is not modelled.
    In the spinning-dust kernel and the dipole a float is a \<^typ>\<open>real\<close>;
  \<^item> a unit-tagged quantity that is only validated is its shape and its unit; a quantity
    that is computed with is its value in SI units;
  \<^item> an exception is the \<open>Inl\<close> branch of a sum;
  \<^item> astropy's unit conversion and healpy's \<^verbatim>\<open>remove_dipole\<close> are third-party library
    calls: the model takes their behaviour as parameters. healpy's \<^verbatim>\<open>get_nside\<close> is
    modelled as healpy defines it.
\<close>

subsection \<open>Exceptions and Python values\<close>

datatype error =
    TypeError        \<comment> \<open>not an \<^verbatim>\<open>astropy.units.Quantity\<close>\<close>
  | ValueError       \<comment> \<open>wrong shape\<close>
  | NsideError       \<comment> \<open>pixel count that is no HEALPix resolution\<close>
  | UnitsError       \<comment> \<open>unit not convertible\<close>
  | IndexError       \<comment> \<open>\<^verbatim>\<open>shape[i]\<close> beyond the rank\<close>
  | AttributeError   \<comment> \<open>no catalog attribute\<close>

text \<open>What validation reads of an argument: whether it is a Quantity and, if so, its
  shape and unit.\<close>

datatype 'u pyobj = Quantity "nat list" 'u | NotQuantity

text \<open>The library calls of the validation layer.
  \<^item> \<open>to_freq_ok u\<close>: \<^verbatim>\<open>q.to(DEFAULT_FREQ_UNIT, equivalencies=spectral())\<close> does not raise
    \<^verbatim>\<open>UnitConversionError\<close> for a quantity of unit \<open>u\<close>;
  \<^item> \<open>to_output_ok f u\<close>: \<^verbatim>\<open>q.to(DEFAULT_OUTPUT_UNIT, equivalencies=brightness_temperature(freq_ref))\<close>
    does not raise for a quantity of unit \<open>u\<close> and a reference frequency of unit \<open>f\<close>;
  \<^item> \<open>per_sr u\<close>: the unit of \<^verbatim>\<open>q / Unit("sr")\<close>.\<close>

record 'u libs =
  to_freq_ok :: "'u \<Rightarrow> bool"
  to_output_ok :: "'u \<Rightarrow> 'u \<Rightarrow> bool"
  per_sr :: "'u \<Rightarrow> 'u"

text \<open>healpy's \<^verbatim>\<open>isnpixok(npix)\<close>: \<^verbatim>\<open>sqrt(npix / 12)\<close> is a whole number, that is, \<open>npix\<close> is
  \<open>12 k\<^sup>2\<close> for a natural number \<open>k\<close>.\<close>

definition isnpixok :: "nat \<Rightarrow> bool" where
  "isnpixok npix = list_ex (\<lambda>k. npix = 12 * k\<^sup>2) [0..<Suc npix]"

text \<open>\<open>hp_get_nside_ok sh\<close>: \<^verbatim>\<open>hp.get_nside(m)\<close> does not raise \<^verbatim>\<open>TypeError\<close> for an array \<open>m\<close>
  of shape \<open>sh\<close>. healpy's \<^verbatim>\<open>maptype\<close> raises it for a scalar and for an array of length
  zero; otherwise the pixel count it tests with \<^verbatim>\<open>isnpixok\<close> is \<^verbatim>\<open>len(m[0])\<close>, or \<^verbatim>\<open>len(m)\<close>
  when \<open>m\<close> has one axis.\<close>

definition hp_get_nside_ok :: "nat list \<Rightarrow> bool" where
  "hp_get_nside_ok sh =
     (case sh of
        [] \<Rightarrow> False
      | [n] \<Rightarrow> n \<noteq> 0 \<and> isnpixok n
      | s # n # _ \<Rightarrow> s \<noteq> 0 \<and> isnpixok n)"

text \<open>\<^verbatim>\<open>q.shape[i]\<close>: a tuple index beyond the rank raises \<^verbatim>\<open>IndexError\<close>.\<close>

definition shape_at :: "nat list \<Rightarrow> nat \<Rightarrow> error + nat" where
  "shape_at sh i = (if i < length sh then Inr (sh ! i) else Inl IndexError)"

subsection \<open>\<^verbatim>\<open>SkyComponent._validate_freq_ref\<close>\<close>

definition validate_freq_ref :: "'u libs \<Rightarrow> 'u pyobj \<Rightarrow> error + unit" where
  "validate_freq_ref L freq_ref =
     (case freq_ref of
        NotQuantity \<Rightarrow> Inl TypeError
      | Quantity sh un \<Rightarrow>
          if sh \<noteq> [1, 1] \<and> sh \<noteq> [3, 1] then Inl ValueError
          else if \<not> to_freq_ok L un then Inl UnitsError
          else Inr ())"

subsection \<open>\<^verbatim>\<open>DiffuseComponent\<close>\<close>

text \<open>\<^verbatim>\<open>_validate_amp\<close> reads \<^verbatim>\<open>self.freq_ref\<close>, which is \<open>None\<close> or a quantity (its shape and
  unit): \<^verbatim>\<open>__init__\<close> has validated it before.\<close>

definition validate_amp :: "'u libs \<Rightarrow> (nat list \<times> 'u) option \<Rightarrow> 'u pyobj \<Rightarrow> error + unit" where
  "validate_amp L self_freq_ref amp =
     (case amp of
        NotQuantity \<Rightarrow> Inl TypeError
      | Quantity sh un \<Rightarrow>
          if \<not> hp_get_nside_ok sh then Inl NsideError
          else (case self_freq_ref of
                  None \<Rightarrow> Inr ()
                | Some (fsh, fu) \<Rightarrow>
                    (case shape_at sh 0 of
                       Inl e \<Rightarrow> Inl e
                     | Inr a0 \<Rightarrow>
                         (case shape_at fsh 0 of
                            Inl e \<Rightarrow> Inl e
                          | Inr f0 \<Rightarrow>
                              if a0 \<noteq> f0 then Inl ValueError
                              else if \<not> to_output_ok L fu un then Inl UnitsError
                              else Inr ()))))"

text \<open>One pass of the loop of \<^verbatim>\<open>_validate_spectral_parameters\<close>; \<open>amp_sh\<close> is
  \<^verbatim>\<open>self.amp.shape\<close>. The \<^verbatim>\<open>or\<close> is short-circuit: \<^verbatim>\<open>shape[0]\<close> is read only when
  \<^verbatim>\<open>ndim >= 2\<close>.\<close>

definition check_parameter :: "nat list \<Rightarrow> 'u pyobj \<Rightarrow> error + unit" where
  "check_parameter amp_sh parameter =
     (case parameter of
        NotQuantity \<Rightarrow> Inl TypeError
      | Quantity sh un \<Rightarrow>
          if length sh < 2 then Inl ValueError
          else (case shape_at amp_sh 0 of
                  Inl e \<Rightarrow> Inl e
                | Inr a0 \<Rightarrow>
                    if sh ! 0 \<noteq> a0 then Inl ValueError
                    else if sh ! 1 > 1 \<and> \<not> hp_get_nside_ok sh then Inl NsideError
                    else Inr ()))"

text \<open>The dictionary is traversed in insertion order; the first failing parameter raises.\<close>

fun validate_spectral_parameters ::
  "nat list \<Rightarrow> (string \<times> 'u pyobj) list \<Rightarrow> error + unit" where
  "validate_spectral_parameters amp_sh [] = Inr ()"
| "validate_spectral_parameters amp_sh ((name, parameter) # rest) =
     (case check_parameter amp_sh parameter of
        Inl e \<Rightarrow> Inl e
      | Inr _ \<Rightarrow> validate_spectral_parameters amp_sh rest)"

text \<open>\<^verbatim>\<open>DiffuseComponent.__init__\<close>: the base class validates \<open>freq_ref\<close>, then the amplitude
  map and the spectral parameters are validated.\<close>

definition diffuse_init ::
  "'u libs \<Rightarrow> 'u pyobj \<Rightarrow> 'u pyobj \<Rightarrow> (string \<times> 'u pyobj) list \<Rightarrow> error + unit" where
  "diffuse_init L amp freq_ref spectral_parameters =
     (case validate_freq_ref L freq_ref of
        Inl e \<Rightarrow> Inl e
      | Inr _ \<Rightarrow>
          (case freq_ref of
             NotQuantity \<Rightarrow> Inl TypeError
           | Quantity fsh fu \<Rightarrow>
               (case validate_amp L (Some (fsh, fu)) amp of
                  Inl e \<Rightarrow> Inl e
                | Inr _ \<Rightarrow>
                    (case amp of
                       NotQuantity \<Rightarrow> Inl TypeError
                     | Quantity sh un \<Rightarrow>
                         validate_spectral_parameters sh spectral_parameters))))"

subsection \<open>\<^verbatim>\<open>PointSourceComponent\<close>\<close>

definition ps_validate_amp :: "'u libs \<Rightarrow> nat list \<times> 'u \<Rightarrow> 'u pyobj \<Rightarrow> error + unit" where
  "ps_validate_amp L self_freq_ref amp =
     (case amp of
        NotQuantity \<Rightarrow> Inl TypeError
      | Quantity sh un \<Rightarrow>
          (case shape_at sh 0 of
             Inl e \<Rightarrow> Inl e
           | Inr a0 \<Rightarrow>
               (case shape_at (fst self_freq_ref) 0 of
                  Inl e \<Rightarrow> Inl e
                | Inr f0 \<Rightarrow>
                    if a0 \<noteq> f0 then Inl ValueError
                    else if \<not> to_output_ok L (snd self_freq_ref) (per_sr L un)
                    then Inl UnitsError
                    else Inr ())))"

definition ps_check_parameter :: "nat list \<Rightarrow> 'u pyobj \<Rightarrow> error + unit" where
  "ps_check_parameter amp_sh parameter =
     (case parameter of
        NotQuantity \<Rightarrow> Inl TypeError
      | Quantity sh un \<Rightarrow>
          if length sh < 2 then Inl ValueError
          else (case shape_at amp_sh 0 of
                  Inl e \<Rightarrow> Inl e
                | Inr a0 \<Rightarrow> if sh ! 0 \<noteq> a0 then Inl ValueError else Inr ()))"

fun ps_validate_spectral_parameters ::
  "nat list \<Rightarrow> (string \<times> 'u pyobj) list \<Rightarrow> error + unit" where
  "ps_validate_spectral_parameters amp_sh [] = Inr ()"
| "ps_validate_spectral_parameters amp_sh ((name, parameter) # rest) =
     (case ps_check_parameter amp_sh parameter of
        Inl e \<Rightarrow> Inl e
      | Inr _ \<Rightarrow> ps_validate_spectral_parameters amp_sh rest)"

text \<open>\<^verbatim>\<open>_validate_catalog\<close>: \<open>catalog_sh\<close> is \<^verbatim>\<open>catalog.shape\<close>, \<open>amp_sh\<close> is
  \<^verbatim>\<open>self.amp.shape\<close>.\<close>

definition validate_catalog :: "nat list \<Rightarrow> nat list \<Rightarrow> error + unit" where
  "validate_catalog amp_sh catalog_sh =
     (case shape_at catalog_sh 1 of
        Inl e \<Rightarrow> Inl e
      | Inr c1 \<Rightarrow>
          (case shape_at amp_sh 1 of
             Inl e \<Rightarrow> Inl e
           | Inr a1 \<Rightarrow> if c1 \<noteq> a1 then Inl ValueError else Inr ()))"

text \<open>\<^verbatim>\<open>PointSourceComponent.__init__\<close>; \<open>catalog\<close> is \<open>None\<close> when the class has no
  \<^verbatim>\<open>catalog\<close> attribute, which raises \<^verbatim>\<open>AttributeError\<close>.\<close>

definition point_source_init ::
  "'u libs \<Rightarrow> nat list option \<Rightarrow> 'u pyobj \<Rightarrow> 'u pyobj \<Rightarrow> (string \<times> 'u pyobj) list
     \<Rightarrow> error + unit" where
  "point_source_init L catalog amp freq_ref spectral_parameters =
     (case validate_freq_ref L freq_ref of
        Inl e \<Rightarrow> Inl e
      | Inr _ \<Rightarrow>
          (case freq_ref of
             NotQuantity \<Rightarrow> Inl TypeError
           | Quantity fsh fu \<Rightarrow>
               (case ps_validate_amp L (fsh, fu) amp of
                  Inl e \<Rightarrow> Inl e
                | Inr _ \<Rightarrow>
                    (case amp of
                       NotQuantity \<Rightarrow> Inl TypeError
                     | Quantity sh un \<Rightarrow>
                         (case catalog of
                            None \<Rightarrow> Inl AttributeError
                          | Some csh \<Rightarrow>
                              (case validate_catalog sh csh of
                                 Inl e \<Rightarrow> Inl e
                               | Inr _ \<Rightarrow>
                                   ps_validate_spectral_parameters sh spectral_parameters))))))"

subsection \<open>Floats\<close>

text \<open>A float of a format is a real, an infinity or \<open>nan\<close>. \<open>huge d\<close> is the least
  magnitude that overflows in the format \<open>d\<close> and \<open>tiny d\<close> the greatest that underflows to
  zero (IEEE 754 rounds at \<open>2\<^sup>1\<^sup>0\<^sup>2\<^sup>4 - 2\<^sup>9\<^sup>7\<^sup>0\<close> and \<open>2\<^sup>-\<^sup>1\<^sup>0\<^sup>7\<^sup>5\<close> in double precision, one rounding
  step away). The sign of a zero is not kept: a positive number divided by zero is \<open>+inf\<close>.\<close>

datatype dtype = Float32 | Float64

datatype npfloat = Fin real | PInf | NInf | NaN

fun huge :: "dtype \<Rightarrow> real" where
  "huge Float32 = 2 ^ 128"
| "huge Float64 = 2 ^ 1024"

fun tiny :: "dtype \<Rightarrow> real" where
  "tiny Float32 = 1 / 2 ^ 150"
| "tiny Float64 = 1 / 2 ^ 1075"

text \<open>The float an operation returns whose exact result is \<open>x\<close>.\<close>

definition rnd :: "dtype \<Rightarrow> real \<Rightarrow> npfloat" where
  "rnd d x =
     (if huge d \<le> x then PInf
      else if x \<le> - huge d then NInf
      else if \<bar>x\<bar> \<le> tiny d then Fin 0
      else Fin x)"

definition signed_inf :: "real \<Rightarrow> npfloat" where
  "signed_inf s = (if 0 < s then PInf else if s < 0 then NInf else NaN)"

fun sgnf :: "npfloat \<Rightarrow> real" where
  "sgnf (Fin x) = sgn x"
| "sgnf PInf = 1"
| "sgnf NInf = - 1"
| "sgnf NaN = 0"

fun fneg :: "npfloat \<Rightarrow> npfloat" where
  "fneg (Fin x) = Fin (- x)"
| "fneg PInf = NInf"
| "fneg NInf = PInf"
| "fneg NaN = NaN"

fun fmul :: "dtype \<Rightarrow> npfloat \<Rightarrow> npfloat \<Rightarrow> npfloat" where
  "fmul d NaN b = NaN"
| "fmul d a NaN = NaN"
| "fmul d (Fin x) (Fin y) = rnd d (x * y)"
| "fmul d a b = signed_inf (sgnf a * sgnf b)"

fun fdiv :: "dtype \<Rightarrow> npfloat \<Rightarrow> npfloat \<Rightarrow> npfloat" where
  "fdiv d NaN b = NaN"
| "fdiv d a NaN = NaN"
| "fdiv d (Fin x) (Fin y) = (if y = 0 then signed_inf x else rnd d (x / y))"
| "fdiv d (Fin x) b = Fin 0"
| "fdiv d a (Fin y) = signed_inf (sgnf a * (if y < 0 then - 1 else 1))"
| "fdiv d a b = NaN"

fun fadd :: "dtype \<Rightarrow> npfloat \<Rightarrow> npfloat \<Rightarrow> npfloat" where
  "fadd d NaN b = NaN"
| "fadd d a NaN = NaN"
| "fadd d (Fin x) (Fin y) = rnd d (x + y)"
| "fadd d (Fin x) b = b"
| "fadd d a (Fin y) = a"
| "fadd d a b = (if a = b then a else NaN)"

definition fsub :: "dtype \<Rightarrow> npfloat \<Rightarrow> npfloat \<Rightarrow> npfloat" where
  "fsub d a b = fadd d a (fneg b)"

fun fexp :: "dtype \<Rightarrow> npfloat \<Rightarrow> npfloat" where
  "fexp d (Fin x) = rnd d (exp x)"
| "fexp d PInf = PInf"
| "fexp d NInf = Fin 0"
| "fexp d NaN = NaN"

fun fexpm1 :: "dtype \<Rightarrow> npfloat \<Rightarrow> npfloat" where
  "fexpm1 d (Fin x) = rnd d (exp x - 1)"
| "fexpm1 d PInf = PInf"
| "fexpm1 d NInf = Fin (- 1)"
| "fexpm1 d NaN = NaN"

fun fln :: "dtype \<Rightarrow> npfloat \<Rightarrow> npfloat" where
  "fln d (Fin x) = (if x < 0 then NaN else if x = 0 then NInf else rnd d (ln x))"
| "fln d PInf = PInf"
| "fln d NInf = NaN"
| "fln d NaN = NaN"

fun fsqrt :: "dtype \<Rightarrow> npfloat \<Rightarrow> npfloat" where
  "fsqrt d (Fin x) = (if x < 0 then NaN else rnd d (sqrt x))"
| "fsqrt d PInf = PInf"
| "fsqrt d NInf = NaN"
| "fsqrt d NaN = NaN"

text \<open>\<^verbatim>\<open>a ** n\<close> for a whole number \<open>n\<close>.\<close>

fun fpowi :: "dtype \<Rightarrow> npfloat \<Rightarrow> nat \<Rightarrow> npfloat" where
  "fpowi d (Fin x) n = rnd d (x ^ n)"
| "fpowi d PInf n = (if n = 0 then Fin 1 else PInf)"
| "fpowi d NInf n = (if n = 0 then Fin 1 else if even n then PInf else NInf)"
| "fpowi d NaN n = (if n = 0 then Fin 1 else NaN)"

text \<open>\<^verbatim>\<open>a ** y\<close> for a finite floating exponent \<open>y\<close>: one to any power and any power zero
  are one, a negative base has a power only for a whole exponent.\<close>

fun fpow :: "dtype \<Rightarrow> npfloat \<Rightarrow> real \<Rightarrow> npfloat" where
  "fpow d (Fin x) y =
     (if y = 0 \<or> x = 1 then Fin 1
      else if 0 < x then rnd d (x powr y)
      else if x = 0 then (if 0 < y then Fin 0 else PInf)
      else if y = of_int \<lfloor>y\<rfloor> then rnd d ((if even \<lfloor>y\<rfloor> then 1 else - 1) * (\<bar>x\<bar> powr y))
      else NaN)"
| "fpow d PInf y = (if y = 0 then Fin 1 else if 0 < y then PInf else Fin 0)"
| "fpow d NInf y =
     (if y = 0 then Fin 1
      else if y < 0 then Fin 0
      else if y = of_int \<lfloor>y\<rfloor> \<and> odd \<lfloor>y\<rfloor> then NInf
      else PInf)"
| "fpow d NaN y = (if y = 0 then Fin 1 else NaN)"

subsection \<open>Constants\<close>

text \<open>Modelled from the spec: the constants of \<^verbatim>\<open>cosmoglobe.sky._constants\<close> and of
  \<^verbatim>\<open>astropy.constants\<close> (not among the sources): Planck's \<open>h\<close>, Boltzmann's \<open>k_B\<close>, the speed
  of light, in SI units, and the CMB temperature \<open>T_0 = 2.7255 K\<close> of the class docstring.\<close>

definition const_h :: real where "const_h = 662607015 / 10 ^ 42"
definition const_k_B :: real where "const_k_B = 1380649 / 10 ^ 29"
definition const_c :: real where "const_c = 299792458"
definition const_T_0 :: real where "const_T_0 = 27255 / 10 ^ 4"

subsection \<open>Power laws and the modified blackbody (\<^verbatim>\<open>sky/components.py\<close>)\<close>

text \<open>The kernels act elementwise on broadcast arrays of double precision; the model is
  the kernel at one element. A frequency is its value in Hz; a spectral index is a finite
  number.\<close>

definition synchrotron_get_freq_scaling :: "npfloat \<Rightarrow> npfloat \<Rightarrow> real \<Rightarrow> npfloat" where
  "synchrotron_get_freq_scaling freq freq_ref beta =
     fpow Float64 (fdiv Float64 freq freq_ref) beta"

definition radio_get_freq_scaling :: "npfloat \<Rightarrow> npfloat \<Rightarrow> real \<Rightarrow> npfloat" where
  "radio_get_freq_scaling freq freq_ref specind =
     fpow Float64 (fdiv Float64 freq freq_ref) (specind - 2)"

text \<open>Modelled from the spec: \<^verbatim>\<open>F.blackbody_emission\<close> of \<^verbatim>\<open>cosmoglobe.utils.functions\<close>
  (not among the sources), the Planck spectral radiance at temperature \<open>T\<close>, evaluated
  through \<^verbatim>\<open>expm1\<close>: \<^verbatim>\<open>2*h*freq**3 / c**2 / expm1(h*freq / (k_B*T))\<close>.\<close>

definition blackbody_emission :: "npfloat \<Rightarrow> npfloat \<Rightarrow> npfloat" where
  "blackbody_emission freq T =
     fdiv Float64
       (fdiv Float64
          (fmul Float64 (fmul Float64 (Fin 2) (Fin const_h)) (fpowi Float64 freq 3))
          (fpowi Float64 (Fin const_c) 2))
       (fexpm1 Float64
          (fdiv Float64 (fmul Float64 (Fin const_h) freq) (fmul Float64 (Fin const_k_B) T)))"

definition dust_get_freq_scaling :: "npfloat \<Rightarrow> npfloat \<Rightarrow> real \<Rightarrow> npfloat \<Rightarrow> npfloat" where
  "dust_get_freq_scaling freq freq_ref beta T =
     (let blackbody_ratio =
            fdiv Float64 (blackbody_emission freq T) (blackbody_emission freq_ref T);
          scaling = fmul Float64 (fpow Float64 (fdiv Float64 freq freq_ref) (beta - 2))
                      blackbody_ratio
      in scaling)"

subsection \<open>Free-free (\<^verbatim>\<open>models/ff.py\<close>)\<close>

text \<open>An array is its dtype and its elements. numpy computes an operation on an array in
  the precision of the array: a Python or numpy scalar operand (\<open>nu\<close>, \<^verbatim>\<open>1e-4\<close>, \<^verbatim>\<open>np.e\<close>,
  \<^verbatim>\<open>np.sqrt(3)/np.pi\<close>) does not change it, and two arrays give the wider of their dtypes.\<close>

type_synonym ndarray = "dtype \<times> npfloat list"

fun cast :: "dtype \<Rightarrow> npfloat \<Rightarrow> npfloat" where
  "cast d (Fin x) = rnd d x"
| "cast d a = a"

definition astype :: "ndarray \<Rightarrow> dtype \<Rightarrow> ndarray" where
  "astype a d = (d, map (cast d) (snd a))"

definition result_type :: "dtype \<Rightarrow> dtype \<Rightarrow> dtype" where
  "result_type d1 d2 = (if d1 = Float64 \<or> d2 = Float64 then Float64 else Float32)"

definition nd_divide :: "ndarray \<Rightarrow> ndarray \<Rightarrow> ndarray" where
  "nd_divide a b =
     (let d = result_type (fst a) (fst b) in (d, map2 (fdiv d) (snd a) (snd b)))"

text \<open>\<^verbatim>\<open>a *= k\<close> for a scalar \<open>k\<close>.\<close>

definition nd_imul :: "ndarray \<Rightarrow> npfloat \<Rightarrow> ndarray" where
  "nd_imul a k = (fst a, map (\<lambda>s. fmul (fst a) s k) (snd a))"

text \<open>\<^verbatim>\<open>gaunt_factor\<close> at one element \<open>t\<close> of an array of dtype \<open>d\<close>, and on the array.\<close>

definition gaunt_at :: "dtype \<Rightarrow> real \<Rightarrow> npfloat \<Rightarrow> npfloat" where
  "gaunt_at d nu t =
     fln d
       (fadd d
          (fexp d
             (fsub d (Fin (596 / 100))
                (fmul d (fdiv Float64 (fsqrt Float64 (Fin 3)) (Fin pi))
                   (fln d
                      (fmul d (Fin nu)
                         (fpow d (fmul d t (Fin (1 / 10 ^ 4))) (- (3 / 2))))))))
          (Fin (exp 1)))"

definition gaunt_factor :: "real \<Rightarrow> ndarray \<Rightarrow> ndarray" where
  "gaunt_factor nu T_e = (fst T_e, map (gaunt_at (fst T_e) nu) (snd T_e))"

text \<open>\<^verbatim>\<open>LinearOpticallyThin._get_freq_scaling\<close>; \<open>nu_ref\<close> is
  \<^verbatim>\<open>self.params['nu_ref'].si.value\<close>, \<open>nu\<close> a frequency other than zero.\<close>

definition lot_get_freq_scaling :: "real \<Rightarrow> real \<Rightarrow> ndarray \<Rightarrow> ndarray" where
  "lot_get_freq_scaling nu_ref nu T_e =
     (let T_e64 = astype T_e Float64;
          scaling = nd_divide (gaunt_factor nu T_e64) (gaunt_factor nu_ref T_e64);
          scaling = nd_imul scaling (fpowi Float64 (fdiv Float64 (Fin nu_ref) (Fin nu)) 2)
      in scaling)"

text \<open>The Gaunt factor and the scaling in the words of the specification, in double
  precision.\<close>

definition Gaunt :: "real \<Rightarrow> npfloat \<Rightarrow> npfloat" where
  "Gaunt nu Te =
     fln Float64
       (fadd Float64
          (fexp Float64
             (fsub Float64 (Fin 5.96)
                (fmul Float64 (fdiv Float64 (fsqrt Float64 (Fin 3)) (Fin pi))
                   (fln Float64
                      (fmul Float64 (Fin nu)
                         (fpow Float64 (fmul Float64 Te (Fin 0.0001)) (- 1.5)))))))
          (Fin (exp 1)))"

definition free_free_scaling_spec :: "real \<Rightarrow> real \<Rightarrow> npfloat \<Rightarrow> npfloat" where
  "free_free_scaling_spec freq_ref freq Te =
     fmul Float64 (fpowi Float64 (fdiv Float64 (Fin freq_ref) (Fin freq)) 2)
       (fdiv Float64 (Gaunt freq Te) (Gaunt freq_ref Te))"

subsection \<open>CMB scaling (\<^verbatim>\<open>sky/components/cmb.py\<close>)\<close>

text \<open>An array of any rank: a scalar or a sequence of arrays.\<close>

datatype 'a nd = Scal 'a | Arr "'a nd list"

fun shape :: "'a nd \<Rightarrow> nat list" where
  "shape (Scal x) = []"
| "shape (Arr []) = [0]"
| "shape (Arr (a # as)) = Suc (length as) # shape a"

text \<open>\<^verbatim>\<open>np.expand_dims(a, axis=0)\<close>.\<close>

definition expand_dims0 :: "'a nd \<Rightarrow> 'a nd" where
  "expand_dims0 a = Arr [a]"

text \<open>The scaling at one finite frequency \<open>f\<close> in Hz, and on an array of frequencies;
  \<open>self_amp\<close> is the amplitude map of the component the method is called on.\<close>

definition cmb_scaling_at :: "real \<Rightarrow> npfloat" where
  "cmb_scaling_at f =
     (let x = fdiv Float64 (fmul Float64 (Fin const_h) (Fin f))
                (fmul Float64 (Fin const_k_B) (Fin const_T_0))
      in fdiv Float64 (fmul Float64 (fpowi Float64 x 2) (fexp Float64 x))
           (fpowi Float64 (fexpm1 Float64 x) 2))"

definition cmb_get_freq_scaling :: "real nd \<Rightarrow> real nd \<Rightarrow> npfloat nd" where
  "cmb_get_freq_scaling self_amp freqs =
     (let scaling = map_nd cmb_scaling_at freqs in expand_dims0 scaling)"

text \<open>The CMB scaling in the words of the specification.\<close>

definition cmb_scaling_spec :: "real \<Rightarrow> real" where
  "cmb_scaling_spec freq =
     (let x = const_h * freq / (const_k_B * const_T_0) in x\<^sup>2 * exp x / (exp x - 1)\<^sup>2)"

subsection \<open>Spinning dust (\<^verbatim>\<open>AME\<close> of \<^verbatim>\<open>sky/components.py\<close>)\<close>

text \<open>\<^verbatim>\<open>self.spdust2\<close> is a \<open>2 \<times> K\<close> array read from a data file: the model takes it as a
  parameter, as the list of its columns \<open>(spdust2[0][i], spdust2[1][i])\<close>, frequencies in
  Hz. Frequencies are their SI values, so \<^verbatim>\<open>30*u.GHz\<close> is \<open>30 * 10 ^ 9\<close>.\<close>

type_synonym template = "(real \<times> real) list"

text \<open>\<^verbatim>\<open>np.interp(x, xp, fp)\<close> on the non-empty table \<open>p # ps\<close> with increasing \<open>xp\<close>: the
  end values outside the table, and \<^verbatim>\<open>slope * (x - xp[j]) + fp[j]\<close> on the interval
  \<open>xp[j] \<le> x < xp[j+1]\<close>.\<close>

fun interp_scan :: "real \<Rightarrow> real \<times> real \<Rightarrow> template \<Rightarrow> real" where
  "interp_scan x (x0, y0) [] = y0"
| "interp_scan x (x0, y0) ((x1, y1) # rest) =
     (if x < x1 then (y1 - y0) / (x1 - x0) * (x - x0) + y0
      else interp_scan x (x1, y1) rest)"

definition np_interp :: "real \<Rightarrow> real \<times> real \<Rightarrow> template \<Rightarrow> real" where
  "np_interp x p ps = (if x \<le> fst p then snd p else interp_scan x p ps)"

text \<open>The result is the scalar \<^verbatim>\<open>Quantity(0)\<close> or an array of ratios.\<close>

datatype ame_scaling = Zero_scalar | Scaling "real list"

text \<open>\<^verbatim>\<open>np.min\<close> of an empty array raises \<^verbatim>\<open>ValueError\<close>. \<open>freq\<close> is the array of
  frequencies, \<open>freq_ref\<close> and \<open>nu_p\<close> are of shape \<open>(1, 1)\<close>.\<close>

definition ame_get_freq_scaling ::
  "template \<Rightarrow> real list \<Rightarrow> real \<Rightarrow> real \<Rightarrow> error + ame_scaling" where
  "ame_get_freq_scaling spdust2 freq freq_ref nu_p =
     (let peak_scale = 30 * 10 ^ 9 / nu_p in
      case spdust2 of
        [] \<Rightarrow> Inl ValueError
      | p # ps \<Rightarrow>
          let lo = fold min (map fst ps) (fst p);
              hi = fold max (map fst ps) (fst p)
          in if \<not> list_all (\<lambda>f. f * peak_scale > lo \<and> f * peak_scale < hi) freq
             then Inr Zero_scalar
             else let interp = map (\<lambda>f. np_interp (f * peak_scale) p ps) freq;
                      interp_ref = np_interp (freq_ref * peak_scale) p ps;
                      scaling = map (\<lambda>i. i / interp_ref) interp
                  in Inr (Scaling scaling))"

text \<open>Linear interpolation in the words of the specification: on the segment between
  two neighbouring template points.\<close>

definition linear_between :: "real \<times> real \<Rightarrow> real \<times> real \<Rightarrow> real \<Rightarrow> real" where
  "linear_between a b x = snd a + (snd b - snd a) * (x - fst a) / (fst b - fst a)"

subsection \<open>The CMB dipole (\<^verbatim>\<open>CMB\<close> of \<^verbatim>\<open>sky/components.py\<close>)\<close>

text \<open>The state of a CMB component: the amplitude map, one row per Stokes parameter, and
  the \<^verbatim>\<open>dipole\<close> attribute, which exists only after \<^verbatim>\<open>remove_dipole\<close>.\<close>

record cmb =
  cmb_amp :: "real list list"
  cmb_dipole :: "real list option"

definition dipole_warning :: string where
  "dipole_warning = ''Returning previously removed dipole signal (overriding gal_cut).''"

text \<open>\<open>hp_remove_dipole m gal_cut\<close> is healpy's \<^verbatim>\<open>remove_dipole(m, gal_cut=gal_cut)\<close>: the
  map without its fitted monopole and dipole, of the size of \<open>m\<close>. \<open>gal_cut\<close> is the value of
  an angle (\<^verbatim>\<open>quantity_input\<close> admits no other unit). A method returns its value, the
  warnings it emits and the state it leaves.\<close>

definition get_dipole ::
  "(real list \<Rightarrow> real \<Rightarrow> real list) \<Rightarrow> cmb \<Rightarrow> real \<Rightarrow> error + (real list \<times> string list \<times> cmb)" where
  "get_dipole hp_remove_dipole self gal_cut =
     (case cmb_dipole self of
        Some d \<Rightarrow> Inr (d, [dipole_warning], self)
      | None \<Rightarrow>
          (case cmb_amp self of
             [] \<Rightarrow> Inl IndexError
           | amp0 # rest \<Rightarrow>
               let amp_without_dipole = hp_remove_dipole amp0 gal_cut
               in Inr (map2 (-) amp0 amp_without_dipole, [], self)))"

definition remove_dipole ::
  "(real list \<Rightarrow> real \<Rightarrow> real list) \<Rightarrow> cmb \<Rightarrow> real \<Rightarrow> error + cmb" where
  "remove_dipole hp_remove_dipole self gal_cut =
     (case cmb_amp self of
        [] \<Rightarrow> Inl IndexError
      | amp0 # rest \<Rightarrow>
          let amp_without_dipole = hp_remove_dipole amp0 gal_cut
          in Inr (self\<lparr>cmb_dipole := Some (map2 (-) amp0 amp_without_dipole),
                       cmb_amp := amp_without_dipole # rest\<rparr>))"

subsection \<open>An instance of the library parameters\<close>

text \<open>Modelled from the spec: a HEALPix pixel count is \<open>12 \<cdot> nside\<^sup>2\<close> for \<open>nside\<close> a power of
  two (the glossary).\<close>

definition healpix_npix_ok :: "nat \<Rightarrow> bool" where
  "healpix_npix_ok npix = list_ex (\<lambda>k. npix = 12 * (2 ^ k)\<^sup>2) [0..<Suc npix]"

text \<open>A few units, with the conversions astropy allows between them: a frequency or a
  wavelength converts to GHz under \<^verbatim>\<open>spectral()\<close>; a brightness temperature or a flux
  density per steradian converts to the output unit under \<^verbatim>\<open>brightness_temperature\<close>.\<close>

datatype units = GHz | Metre | Second | uK_RJ | MJy_per_sr | MJy | Other_unit

definition example_libs :: "units libs" where
  "example_libs =
     \<lparr> to_freq_ok = (\<lambda>u. u = GHz \<or> u = Metre),
       to_output_ok = (\<lambda>f u. u = uK_RJ \<or> u = MJy_per_sr),
       per_sr = (\<lambda>u. if u = MJy then MJy_per_sr else Other_unit) \<rparr>"

section \<open>Validation layer\<close>

subsection \<open>Reference frequency\<close>

text \<open>Claim C6. \<^verbatim>\<open>_validate_freq_ref\<close> raises \<^verbatim>\<open>TypeError\<close> exactly when \<open>freq_ref\<close> is no
  Quantity, the shape error (\<^verbatim>\<open>ValueError\<close>) exactly when it is a Quantity whose shape is
  neither \<open>(1, 1)\<close> nor \<open>(3, 1)\<close>, \<^verbatim>\<open>UnitsError\<close> exactly when it is a Quantity of such a
  shape that does not convert to the default frequency unit under \<^verbatim>\<open>spectral()\<close>, and it
  passes exactly when all three invariants hold. Whenever it raises, the construction of a
  diffuse and of a point-source component raises the same error.\<close>

theorem validate_freq_ref_spec:
  "(validate_freq_ref L freq_ref = Inl TypeError \<longleftrightarrow> freq_ref = NotQuantity) \<and>
   (validate_freq_ref L freq_ref = Inl ValueError \<longleftrightarrow>
      (\<exists>sh un. freq_ref = Quantity sh un \<and> sh \<noteq> [1, 1] \<and> sh \<noteq> [3, 1])) \<and>
   (validate_freq_ref L freq_ref = Inl UnitsError \<longleftrightarrow>
      (\<exists>sh un. freq_ref = Quantity sh un \<and> (sh = [1, 1] \<or> sh = [3, 1]) \<and> \<not> to_freq_ok L un)) \<and>
   (validate_freq_ref L freq_ref = Inr () \<longleftrightarrow>
      (\<exists>sh un. freq_ref = Quantity sh un \<and> (sh = [1, 1] \<or> sh = [3, 1]) \<and> to_freq_ok L un)) \<and>
   (\<forall>e. validate_freq_ref L freq_ref = Inl e \<longrightarrow>
      diffuse_init L amp freq_ref ps = Inl e \<and> point_source_init L cat amp freq_ref ps = Inl e)"
  by (cases freq_ref) (auto simp: validate_freq_ref_def diffuse_init_def point_source_init_def)

theorem validate_freq_ref_spec_witness:
  "validate_freq_ref example_libs (Quantity [3, 1] Second) = Inl UnitsError \<and>
   diffuse_init example_libs NotQuantity (Quantity [3, 1] Second) [] = Inl UnitsError \<and>
   point_source_init example_libs None NotQuantity (Quantity [3, 1] Second) [] = Inl UnitsError \<and>
   validate_freq_ref example_libs (Quantity [1, 1] GHz) = Inr () \<and>
   validate_freq_ref example_libs (Quantity [2, 1] GHz) = Inl ValueError \<and>
   validate_freq_ref example_libs NotQuantity = Inl TypeError"
  using validate_freq_ref_spec[where L = example_libs and freq_ref = "Quantity [3, 1] Second"
          and amp = NotQuantity and ps = "[]" and cat = None]
        validate_freq_ref_spec[where L = example_libs and freq_ref = "Quantity [1, 1] GHz"]
        validate_freq_ref_spec[where L = example_libs and freq_ref = "Quantity [2, 1] GHz"]
        validate_freq_ref_spec[where L = example_libs and freq_ref = NotQuantity]
  by (simp add: example_libs_def)

subsection \<open>Amplitude map of a diffuse component\<close>

lemma isnpixok_iff: "isnpixok n \<longleftrightarrow> (\<exists>k. n = 12 * k\<^sup>2)"
proof
  assume "isnpixok n"
  then show "\<exists>k. n = 12 * k\<^sup>2" by (auto simp: isnpixok_def list_ex_iff)
next
  assume "\<exists>k. n = 12 * k\<^sup>2"
  then obtain k where k: "n = 12 * k\<^sup>2" by blast
  have "k \<le> k\<^sup>2" by (simp add: power2_nat_le_imp_le)
  then have "k \<le> n" using k by simp
  with k show "isnpixok n" by (auto simp: isnpixok_def list_ex_iff)
qed

lemma isnpixok_12: "isnpixok 12"
  unfolding isnpixok_iff by (rule exI[of _ 1]) simp

lemma isnpixok_108: "isnpixok 108"
  unfolding isnpixok_iff by (rule exI[of _ 3]) simp

lemma isnpixok_0: "isnpixok 0"
  unfolding isnpixok_iff by (rule exI[of _ 0]) simp

lemma not_isnpixok_7: "\<not> isnpixok 7"
  unfolding isnpixok_iff
proof
  assume "\<exists>k. (7::nat) = 12 * k\<^sup>2"
  then obtain k :: nat where k: "(7::nat) = 12 * k\<^sup>2" by blast
  show False
  proof (cases "k = 0")
    case True
    with k show False by simp
  next
    case False
    then have "(1::nat) \<le> k\<^sup>2" by simp
    then have "(12::nat) * 1 \<le> 12 * k\<^sup>2" by (rule mult_le_mono2)
    with k show False by linarith
  qed
qed

lemma not_healpix_npix_ok_108: "\<not> healpix_npix_ok 108"
  unfolding healpix_npix_ok_def list_ex_iff
proof
  assume "\<exists>k\<in>set [0..<Suc 108]. (108::nat) = 12 * (2 ^ k)\<^sup>2"
  then obtain k :: nat where k: "(108::nat) = 12 * (2 ^ k)\<^sup>2" by blast
  then have e: "((2::nat) ^ k)\<^sup>2 = 9" by simp
  show False
  proof (cases "k \<le> 1")
    case True
    then have "k = 0 \<or> k = 1" by linarith
    with e show False by auto
  next
    case False
    then have "(2::nat) ^ 2 \<le> 2 ^ k" by (intro power_increasing) simp_all
    then have "((2::nat) ^ 2)\<^sup>2 \<le> (2 ^ k)\<^sup>2" by (rule power_mono) simp
    with e show False by simp
  qed
qed

lemma not_healpix_npix_ok_0: "\<not> healpix_npix_ok 0"
  by (simp add: healpix_npix_ok_def)

lemma hp_get_nside_ok_2d: "hp_get_nside_ok [S, N] \<longleftrightarrow> S \<noteq> 0 \<and> (\<exists>k. N = 12 * k\<^sup>2)"
  by (simp add: hp_get_nside_ok_def isnpixok_iff)

lemma hp_get_nside_ok_leading: "hp_get_nside_ok sh \<Longrightarrow> sh \<noteq> [] \<and> sh ! 0 \<noteq> 0"
  by (auto simp: hp_get_nside_ok_def split: list.splits)

lemma diffuse_init_amp_error:
  "validate_freq_ref L (Quantity fsh fu) = Inr () \<Longrightarrow>
   validate_amp L (Some (fsh, fu)) amp = Inl e \<Longrightarrow>
   diffuse_init L amp (Quantity fsh fu) ps = Inl e"
  by (simp add: diffuse_init_def)

lemma validate_amp_cases:
  assumes "fsh = [1, 1] \<or> fsh = [3, 1]"
  shows
  "(validate_amp L (Some (fsh, fu)) amp = Inl TypeError \<longleftrightarrow> amp = NotQuantity) \<and>
   (validate_amp L (Some (fsh, fu)) amp = Inl NsideError \<longleftrightarrow>
      (\<exists>sh un. amp = Quantity sh un \<and> \<not> hp_get_nside_ok sh)) \<and>
   (validate_amp L (Some (fsh, fu)) amp = Inl ValueError \<longleftrightarrow>
      (\<exists>sh un. amp = Quantity sh un \<and> hp_get_nside_ok sh \<and> hd sh \<noteq> hd fsh)) \<and>
   (validate_amp L (Some (fsh, fu)) amp = Inl UnitsError \<longleftrightarrow>
      (\<exists>sh un. amp = Quantity sh un \<and> hp_get_nside_ok sh \<and> hd sh = hd fsh
         \<and> \<not> to_output_ok L fu un)) \<and>
   (validate_amp L (Some (fsh, fu)) amp = Inr () \<longleftrightarrow>
      (\<exists>sh un. amp = Quantity sh un \<and> hp_get_nside_ok sh \<and> hd sh = hd fsh
         \<and> to_output_ok L fu un))"
proof (cases amp)
  case NotQuantity
  then show ?thesis by (simp add: validate_amp_def)
next
  case (Quantity sh un)
  show ?thesis
  proof (cases sh)
    case Nil
    with Quantity assms show ?thesis by (auto simp: validate_amp_def hp_get_nside_ok_def)
  next
    case (Cons a as)
    with Quantity assms show ?thesis by (auto simp: validate_amp_def shape_at_def)
  qed
qed

text \<open>Claim C7, amended. For a validated reference frequency (shape \<open>(1, 1)\<close> or \<open>(3, 1)\<close>),
  \<^verbatim>\<open>DiffuseComponent._validate_amp\<close> raises \<^verbatim>\<open>TypeError\<close> exactly when \<open>amp\<close> is no Quantity;
  \<^verbatim>\<open>NsideError\<close> exactly when it is a Quantity that \<^verbatim>\<open>hp.get_nside\<close> rejects; the shape error
  exactly when \<^verbatim>\<open>hp.get_nside\<close> accepts it and the leading dimension differs from that of
  \<open>freq_ref\<close>; \<^verbatim>\<open>UnitsError\<close> exactly when pixel count and leading dimension are right and the
  unit does not convert to the output unit under \<^verbatim>\<open>brightness_temperature(freq_ref)\<close>; it
  succeeds exactly when all of these hold. An error it raises is the error of the
  construction. \<^verbatim>\<open>hp.get_nside\<close> accepts a map of shape \<open>(S, N)\<close> exactly when \<open>S\<close> is not zero
  and \<open>N = 12 k\<^sup>2\<close> for a natural number \<open>k\<close>, which need not be a power of two and may be
  zero.\<close>

theorem validate_amp_amended:
  assumes "fsh = [1, 1] \<or> fsh = [3, 1]"
  shows
  "(validate_amp L (Some (fsh, fu)) amp = Inl TypeError \<longleftrightarrow> amp = NotQuantity) \<and>
   (validate_amp L (Some (fsh, fu)) amp = Inl NsideError \<longleftrightarrow>
      (\<exists>sh un. amp = Quantity sh un \<and> \<not> hp_get_nside_ok sh)) \<and>
   (validate_amp L (Some (fsh, fu)) amp = Inl ValueError \<longleftrightarrow>
      (\<exists>sh un. amp = Quantity sh un \<and> hp_get_nside_ok sh \<and> hd sh \<noteq> hd fsh)) \<and>
   (validate_amp L (Some (fsh, fu)) amp = Inl UnitsError \<longleftrightarrow>
      (\<exists>sh un. amp = Quantity sh un \<and> hp_get_nside_ok sh \<and> hd sh = hd fsh
         \<and> \<not> to_output_ok L fu un)) \<and>
   (validate_amp L (Some (fsh, fu)) amp = Inr () \<longleftrightarrow>
      (\<exists>sh un. amp = Quantity sh un \<and> hp_get_nside_ok sh \<and> hd sh = hd fsh
         \<and> to_output_ok L fu un)) \<and>
   (\<forall>e. to_freq_ok L fu \<and> validate_amp L (Some (fsh, fu)) amp = Inl e \<longrightarrow>
      diffuse_init L amp (Quantity fsh fu) ps = Inl e) \<and>
   (hp_get_nside_ok [S, N] \<longleftrightarrow> S \<noteq> 0 \<and> (\<exists>k. N = 12 * k\<^sup>2))"
proof -
  have v: "to_freq_ok L fu \<Longrightarrow> validate_freq_ref L (Quantity fsh fu) = Inr ()"
    using assms by (auto simp: validate_freq_ref_def)
  have h: "\<forall>e. to_freq_ok L fu \<and> validate_amp L (Some (fsh, fu)) amp = Inl e \<longrightarrow>
      diffuse_init L amp (Quantity fsh fu) ps = Inl e"
    using v diffuse_init_amp_error[of L fsh fu amp _ ps] by blast
  note c = validate_amp_cases[OF assms, of L fu amp]
  note g = hp_get_nside_ok_2d[of S N]
  show ?thesis
    apply (insert c h g)
    apply (elim conjE)
    apply (intro conjI)
          apply assumption+
    done
qed

theorem validate_amp_amended_witness:
  "validate_amp example_libs (Some ([1, 1], GHz)) (Quantity [1, 12] uK_RJ) = Inr () \<and>
   validate_amp example_libs (Some ([1, 1], GHz)) (Quantity [1, 7] uK_RJ) = Inl NsideError \<and>
   validate_amp example_libs (Some ([1, 1], GHz)) (Quantity [0, 12] uK_RJ) = Inl NsideError \<and>
   validate_amp example_libs (Some ([1, 1], GHz)) (Quantity [3, 12] uK_RJ) = Inl ValueError \<and>
   validate_amp example_libs (Some ([1, 1], GHz)) (Quantity [1, 12] Second) = Inl UnitsError \<and>
   validate_amp example_libs (Some ([1, 1], GHz)) NotQuantity = Inl TypeError \<and>
   diffuse_init example_libs (Quantity [1, 7] uK_RJ) (Quantity [1, 1] GHz) [] = Inl NsideError"
proof -
  have s: "[1, 1] = [1, 1] \<or> [1, 1] = [3, 1::nat]" by simp
  have g12: "hp_get_nside_ok [1, 12]" "hp_get_nside_ok [3, 12]"
    by (simp_all add: hp_get_nside_ok_def isnpixok_12)
  have g7: "\<not> hp_get_nside_ok [1, 7]" "\<not> hp_get_nside_ok [0, 12]"
    by (simp_all add: hp_get_nside_ok_def not_isnpixok_7)
  have u: "to_output_ok example_libs GHz uK_RJ" "\<not> to_output_ok example_libs GHz Second"
      "to_freq_ok example_libs GHz"
    by (simp_all add: example_libs_def)
  note t = validate_amp_amended[OF s, where L = example_libs and fu = GHz]
  show ?thesis
    using g12 g7 u
      t[where amp = "Quantity [1, 12] uK_RJ"]
      t[where amp = "Quantity [1, 7] uK_RJ" and ps = "[]"]
      t[where amp = "Quantity [0, 12] uK_RJ"]
      t[where amp = "Quantity [3, 12] uK_RJ"]
      t[where amp = "Quantity [1, 12] Second"]
      t[where amp = NotQuantity]
    by simp
qed

text \<open>Counterexample to claim C7 as first stated. Maps of 108 pixels (\<open>12 \<sqdot> 3\<^sup>2\<close>) and of no
  pixel are no HEALPix resolutions with \<open>nside\<close> a power of two, and validation accepts
  both.\<close>

theorem validate_amp_power_of_two_counterexample:
  "validate_amp example_libs (Some ([1, 1], GHz)) (Quantity [1, 108] uK_RJ) = Inr () \<and>
   \<not> healpix_npix_ok 108 \<and>
   validate_amp example_libs (Some ([1, 1], GHz)) (Quantity [1, 0] uK_RJ) = Inr () \<and>
   \<not> healpix_npix_ok 0"
  by (simp add: validate_amp_def hp_get_nside_ok_def isnpixok_108 isnpixok_0 shape_at_def
      example_libs_def not_healpix_npix_ok_108 not_healpix_npix_ok_0)

subsection \<open>Spectral parameters of a diffuse component\<close>

lemma validate_spectral_parameters_first_failure:
  "(\<forall>q \<in> set pre. check_parameter amp_sh (snd q) = Inr ()) \<Longrightarrow>
   validate_spectral_parameters amp_sh (pre @ (name, parameter) # post) =
     (case check_parameter amp_sh parameter of
        Inl e \<Rightarrow> Inl e
      | Inr _ \<Rightarrow> validate_spectral_parameters amp_sh post)"
  by (induction pre) (auto split: sum.splits)

lemma validate_spectral_parameters_ok_iff:
  "validate_spectral_parameters amp_sh ps = Inr () \<longleftrightarrow>
     (\<forall>q \<in> set ps. check_parameter amp_sh (snd q) = Inr ())"
  by (induction ps) (auto split: sum.splits)

lemma diffuse_init_parameters:
  "validate_freq_ref L (Quantity fsh fu) = Inr () \<Longrightarrow>
   validate_amp L (Some (fsh, fu)) (Quantity ash aun) = Inr () \<Longrightarrow>
   diffuse_init L (Quantity ash aun) (Quantity fsh fu) ps = validate_spectral_parameters ash ps"
  by (simp add: diffuse_init_def)

lemma validate_amp_ok_leading:
  "validate_amp L fr (Quantity ash aun) = Inr () \<Longrightarrow> ash \<noteq> [] \<and> ash ! 0 \<noteq> 0"
  using hp_get_nside_ok_leading[of ash]
  by (auto simp: validate_amp_def split: if_splits)

text \<open>Claim C8, amended. For a diffuse component whose reference frequency and amplitude
  map (of shape \<open>ash\<close>) have passed validation, and a spectral parameter that is a Quantity of
  shape \<open>sh\<close> and comes after parameters that pass: the construction raises the shape error
  when \<open>sh\<close> has rank below two or its leading dimension differs from that of the amplitude
  map; it raises \<^verbatim>\<open>NsideError\<close> when rank and leading dimension are right, the second
  dimension exceeds one and \<^verbatim>\<open>hp.get_nside\<close> rejects the parameter; a parameter of shape
  \<open>(S, 1)\<close>, or \<open>(S, M)\<close> with \<open>M = 12 k\<^sup>2\<close> for a natural number \<open>k\<close>, with \<open>S\<close> the leading
  dimension of the amplitude map, passes. The construction raises the error of its first
  failing parameter and succeeds exactly when every parameter passes. \<^verbatim>\<open>hp.get_nside\<close>
  accepts a shape \<open>(S, N, \<dots>)\<close> exactly when \<open>S\<close> is not zero and \<open>N = 12 k\<^sup>2\<close> for a natural
  number \<open>k\<close>, which need not be a power of two.\<close>

theorem spectral_parameter_amended:
  assumes v1: "validate_freq_ref L (Quantity fsh fu) = Inr ()"
    and v2: "validate_amp L (Some (fsh, fu)) (Quantity ash aun) = Inr ()"
    and pre: "\<forall>q \<in> set pre. check_parameter ash (snd q) = Inr ()"
  shows
  "(length sh < 2 \<or> sh ! 0 \<noteq> ash ! 0 \<longrightarrow>
      check_parameter ash (Quantity sh un) = Inl ValueError \<and>
      diffuse_init L (Quantity ash aun) (Quantity fsh fu) (pre @ (name, Quantity sh un) # post)
        = Inl ValueError) \<and>
   (2 \<le> length sh \<and> sh ! 0 = ash ! 0 \<and> 1 < sh ! 1 \<and> \<not> hp_get_nside_ok sh \<longrightarrow>
      check_parameter ash (Quantity sh un) = Inl NsideError \<and>
      diffuse_init L (Quantity ash aun) (Quantity fsh fu) (pre @ (name, Quantity sh un) # post)
        = Inl NsideError) \<and>
   check_parameter ash (Quantity [ash ! 0, 1] un) = Inr () \<and>
   (isnpixok M \<longrightarrow> check_parameter ash (Quantity [ash ! 0, M] un) = Inr ()) \<and>
   (\<forall>e. check_parameter ash parameter = Inl e \<longrightarrow>
      diffuse_init L (Quantity ash aun) (Quantity fsh fu) (pre @ (name, parameter) # post)
        = Inl e) \<and>
   (diffuse_init L (Quantity ash aun) (Quantity fsh fu) ps = Inr () \<longleftrightarrow>
      (\<forall>q \<in> set ps. check_parameter ash (snd q) = Inr ())) \<and>
   (hp_get_nside_ok (S # N # rest) \<longleftrightarrow> S \<noteq> 0 \<and> isnpixok N) \<and>
   (isnpixok M \<longleftrightarrow> (\<exists>k. M = 12 * k\<^sup>2))"
proof -
  from validate_amp_ok_leading[OF v2] have a: "ash \<noteq> []" and a0: "ash ! 0 \<noteq> 0" by simp_all
  have sa: "shape_at ash 0 = Inr (ash ! 0)"
    using a by (simp add: shape_at_def)
  note d = diffuse_init_parameters[OF v1 v2]
  note f = validate_spectral_parameters_first_failure[OF pre]
  have 5: "\<forall>e. check_parameter ash parameter = Inl e \<longrightarrow>
      diffuse_init L (Quantity ash aun) (Quantity fsh fu) (pre @ (name, parameter) # post)
        = Inl e"
    by (simp add: d f)
  have c1: "length sh < 2 \<or> sh ! 0 \<noteq> ash ! 0 \<longrightarrow>
      check_parameter ash (Quantity sh un) = Inl ValueError"
    by (simp add: check_parameter_def sa)
  have c2: "2 \<le> length sh \<and> sh ! 0 = ash ! 0 \<and> 1 < sh ! 1 \<and> \<not> hp_get_nside_ok sh \<longrightarrow>
      check_parameter ash (Quantity sh un) = Inl NsideError"
    by (simp add: check_parameter_def sa)
  have 1: "length sh < 2 \<or> sh ! 0 \<noteq> ash ! 0 \<longrightarrow>
      check_parameter ash (Quantity sh un) = Inl ValueError \<and>
      diffuse_init L (Quantity ash aun) (Quantity fsh fu) (pre @ (name, Quantity sh un) # post)
        = Inl ValueError"
    using c1 by (simp add: d f)
  have 2: "2 \<le> length sh \<and> sh ! 0 = ash ! 0 \<and> 1 < sh ! 1 \<and> \<not> hp_get_nside_ok sh \<longrightarrow>
      check_parameter ash (Quantity sh un) = Inl NsideError \<and>
      diffuse_init L (Quantity ash aun) (Quantity fsh fu) (pre @ (name, Quantity sh un) # post)
        = Inl NsideError"
    using c2 by (simp add: d f)
  have 3: "check_parameter ash (Quantity [ash ! 0, 1] un) = Inr ()"
    by (simp add: check_parameter_def sa)
  have 4: "isnpixok M \<longrightarrow> check_parameter ash (Quantity [ash ! 0, M] un) = Inr ()"
    using a0 by (simp add: check_parameter_def sa hp_get_nside_ok_def)
  have 6: "diffuse_init L (Quantity ash aun) (Quantity fsh fu) ps = Inr () \<longleftrightarrow>
      (\<forall>q \<in> set ps. check_parameter ash (snd q) = Inr ())"
    by (simp add: d validate_spectral_parameters_ok_iff)
  have 7: "hp_get_nside_ok (S # N # rest) \<longleftrightarrow> S \<noteq> 0 \<and> isnpixok N"
    by (simp add: hp_get_nside_ok_def)
  have 8: "isnpixok M \<longleftrightarrow> (\<exists>k. M = 12 * k\<^sup>2)"
    by (rule isnpixok_iff)
  show ?thesis
    apply (insert 1 2 3 4 5 6 7 8)
    apply (intro conjI)
           apply assumption+
    done
qed

theorem spectral_parameter_amended_witness:
  "validate_freq_ref example_libs (Quantity [1, 1] GHz) = Inr () \<and>
   validate_amp example_libs (Some ([1, 1], GHz)) (Quantity [1, 12] uK_RJ) = Inr () \<and>
   diffuse_init example_libs (Quantity [1, 12] uK_RJ) (Quantity [1, 1] GHz)
     [(''beta'', Quantity [1, 1] Other_unit), (''T'', Quantity [1] Other_unit)] = Inl ValueError \<and>
   diffuse_init example_libs (Quantity [1, 12] uK_RJ) (Quantity [1, 1] GHz)
     [(''beta'', Quantity [1, 1] Other_unit), (''T'', Quantity [3, 12] Other_unit)] = Inl ValueError \<and>
   diffuse_init example_libs (Quantity [1, 12] uK_RJ) (Quantity [1, 1] GHz)
     [(''beta'', Quantity [1, 1] Other_unit), (''T'', Quantity [1, 7] Other_unit)] = Inl NsideError \<and>
   diffuse_init example_libs (Quantity [1, 12] uK_RJ) (Quantity [1, 1] GHz)
     [(''beta'', Quantity [1, 1] Other_unit), (''T'', Quantity [1, 12] Other_unit)] = Inr ()"
proof -
  have v1: "validate_freq_ref example_libs (Quantity [1, 1] GHz) = Inr ()"
    by (simp add: validate_freq_ref_def example_libs_def)
  have v2: "validate_amp example_libs (Some ([1, 1], GHz)) (Quantity [1, 12] uK_RJ) = Inr ()"
    by (simp add: validate_amp_def hp_get_nside_ok_def isnpixok_12 shape_at_def example_libs_def)
  have c1: "check_parameter [1, 12] (Quantity [1, 1] Other_unit) = Inr ()"
    by (simp add: check_parameter_def shape_at_def)
  have pre: "\<forall>q \<in> set [(''beta'', Quantity [1, 1] Other_unit)].
      check_parameter [1, 12] (snd q) = Inr ()"
    using c1 by simp
  have g7: "\<not> hp_get_nside_ok [1, 7]"
    by (simp add: hp_get_nside_ok_def not_isnpixok_7)
  note t = spectral_parameter_amended[OF v1 v2 pre, where un = Other_unit and name = "''T''"
      and post = "[]"]
  have 1: "diffuse_init example_libs (Quantity [1, 12] uK_RJ) (Quantity [1, 1] GHz)
     [(''beta'', Quantity [1, 1] Other_unit), (''T'', Quantity [1] Other_unit)] = Inl ValueError"
    using t[where sh = "[1]"] by simp
  have 2: "diffuse_init example_libs (Quantity [1, 12] uK_RJ) (Quantity [1, 1] GHz)
     [(''beta'', Quantity [1, 1] Other_unit), (''T'', Quantity [3, 12] Other_unit)] = Inl ValueError"
    using t[where sh = "[3, 12]"] by simp
  have 3: "diffuse_init example_libs (Quantity [1, 12] uK_RJ) (Quantity [1, 1] GHz)
     [(''beta'', Quantity [1, 1] Other_unit), (''T'', Quantity [1, 7] Other_unit)] = Inl NsideError"
    using t[where sh = "[1, 7]"] g7 by simp
  have c2: "check_parameter [1, 12] (Quantity [1, 12] Other_unit) = Inr ()"
    using t[where M = 12] isnpixok_12 by simp
  have 4: "diffuse_init example_libs (Quantity [1, 12] uK_RJ) (Quantity [1, 1] GHz)
     [(''beta'', Quantity [1, 1] Other_unit), (''T'', Quantity [1, 12] Other_unit)] = Inr ()"
    using t[where ps = "[(''beta'', Quantity [1, 1] Other_unit), (''T'', Quantity [1, 12] Other_unit)]"]
      c1 c2 by simp
  from v1 v2 1 2 3 4 show ?thesis by simp
qed

text \<open>Counterexample to claim C8 as first stated. A parameter map of 108 pixels
  (\<open>12 \<sqdot> 3\<^sup>2\<close>) has a second dimension above one that is no HEALPix resolution with \<open>nside\<close> a
  power of two, and the construction succeeds.\<close>

theorem spectral_parameter_power_of_two_counterexample:
  "diffuse_init example_libs (Quantity [1, 12] uK_RJ) (Quantity [1, 1] GHz)
     [(''beta'', Quantity [1, 108] Other_unit)] = Inr () \<and>
   (1::nat) < 108 \<and> \<not> healpix_npix_ok 108"
proof -
  have "diffuse_init example_libs (Quantity [1, 12] uK_RJ) (Quantity [1, 1] GHz)
     [(''beta'', Quantity [1, 108] Other_unit)] = Inr ()"
    by (simp add: diffuse_init_def validate_freq_ref_def validate_amp_def check_parameter_def
        hp_get_nside_ok_def isnpixok_12 isnpixok_108 shape_at_def example_libs_def)
  then show ?thesis using not_healpix_npix_ok_108 by simp
qed

subsection \<open>Point-source components\<close>

lemma ps_validate_amp_cases:
  assumes "fsh \<noteq> []"
  shows
  "(ps_validate_amp L (fsh, fu) amp = Inl TypeError \<longleftrightarrow> amp = NotQuantity) \<and>
   (ps_validate_amp L (fsh, fu) amp = Inl IndexError \<longleftrightarrow> (\<exists>un. amp = Quantity [] un)) \<and>
   (ps_validate_amp L (fsh, fu) amp = Inl ValueError \<longleftrightarrow>
      (\<exists>sh un. amp = Quantity sh un \<and> sh \<noteq> [] \<and> hd sh \<noteq> hd fsh)) \<and>
   (ps_validate_amp L (fsh, fu) amp = Inl UnitsError \<longleftrightarrow>
      (\<exists>sh un. amp = Quantity sh un \<and> sh \<noteq> [] \<and> hd sh = hd fsh
         \<and> \<not> to_output_ok L fu (per_sr L un))) \<and>
   (ps_validate_amp L (fsh, fu) amp = Inr () \<longleftrightarrow>
      (\<exists>sh un. amp = Quantity sh un \<and> sh \<noteq> [] \<and> hd sh = hd fsh
         \<and> to_output_ok L fu (per_sr L un)))"
proof (cases amp)
  case NotQuantity
  then show ?thesis by (simp add: ps_validate_amp_def)
next
  case (Quantity sh un)
  from assms obtain f fs where f: "fsh = f # fs" by (cases fsh) auto
  show ?thesis
  proof (cases sh)
    case Nil
    with Quantity f show ?thesis by (auto simp: ps_validate_amp_def shape_at_def)
  next
    case (Cons a as)
    with Quantity f show ?thesis by (auto simp: ps_validate_amp_def shape_at_def)
  qed
qed

lemma validate_catalog_mismatch:
  "2 \<le> length csh \<Longrightarrow> 2 \<le> length sh \<Longrightarrow> csh ! 1 \<noteq> sh ! 1 \<Longrightarrow>
   validate_catalog sh csh = Inl ValueError"
  by (simp add: validate_catalog_def shape_at_def)

lemma validate_catalog_ok_iff:
  "validate_catalog sh csh = Inr () \<longleftrightarrow> 2 \<le> length csh \<and> 2 \<le> length sh \<and> csh ! 1 = sh ! 1"
  by (auto simp: validate_catalog_def shape_at_def split: sum.splits if_splits)

lemma point_source_init_ok_iff:
  "validate_freq_ref L (Quantity fsh fu) = Inr () \<Longrightarrow>
   point_source_init L cat amp (Quantity fsh fu) ps = Inr () \<longleftrightarrow>
     (\<exists>sh un csh. amp = Quantity sh un \<and> cat = Some csh \<and>
        ps_validate_amp L (fsh, fu) amp = Inr () \<and>
        validate_catalog sh csh = Inr () \<and>
        ps_validate_spectral_parameters sh ps = Inr ())"
  by (cases amp; cases cat)
     (auto simp: point_source_init_def ps_validate_amp_def split: sum.splits)

lemma point_source_init_amp_error:
  "validate_freq_ref L (Quantity fsh fu) = Inr () \<Longrightarrow>
   ps_validate_amp L (fsh, fu) amp = Inl e \<Longrightarrow>
   point_source_init L cat amp (Quantity fsh fu) ps = Inl e"
  by (simp add: point_source_init_def)

lemma point_source_init_catalog_error:
  "validate_freq_ref L (Quantity fsh fu) = Inr () \<Longrightarrow>
   ps_validate_amp L (fsh, fu) (Quantity ash un) = Inr () \<Longrightarrow>
   validate_catalog ash csh = Inl e \<Longrightarrow>
   point_source_init L (Some csh) (Quantity ash un) (Quantity fsh fu) ps = Inl e"
  by (simp add: point_source_init_def)

lemma point_source_init_catalog:
  "point_source_init L cat amp freq_ref ps = Inr () \<Longrightarrow>
   \<exists>csh sh un. cat = Some csh \<and> amp = Quantity sh un \<and> validate_catalog sh csh = Inr ()"
  by (auto simp: point_source_init_def split: sum.splits pyobj.splits option.splits)

text \<open>Claim C9. A point-source component validates \<open>freq_ref\<close> with the function of the
  diffuse family, so a failure there fails both constructions with the same error. Its
  amplitude check raises \<^verbatim>\<open>TypeError\<close> exactly for a non-Quantity, the shape error exactly
  when the leading dimension differs from that of \<open>freq_ref\<close>, and \<^verbatim>\<open>UnitsError\<close> exactly when
  the leading dimension is right and the unit divided by steradian does not convert to the
  output unit; its result does not depend on the second dimension of \<open>amp\<close>. Once \<open>freq_ref\<close>
  has passed, an error of the amplitude check is the error of the construction, and so is
  an error of the catalog check once the amplitude has passed; the construction succeeds
  exactly when amplitude, catalog and spectral parameters all pass. When the number of
  columns of the catalog differs from the second dimension of \<open>amp\<close>, catalog validation
  raises the shape error and the construction fails; a construction that succeeds has a
  catalog whose number of columns is the second dimension of \<open>amp\<close>.\<close>

theorem point_source_spec:
  "(\<forall>e. validate_freq_ref L freq_ref = Inl e \<longrightarrow>
        point_source_init L cat amp freq_ref ps = Inl e \<and> diffuse_init L amp freq_ref ps = Inl e) \<and>
   ps_validate_amp L (fsh, fu) (Quantity (s # n # sh') un) =
     ps_validate_amp L (fsh, fu) (Quantity (s # n' # sh') un) \<and>
   (fsh \<noteq> [] \<longrightarrow>
     (ps_validate_amp L (fsh, fu) amp = Inl TypeError \<longleftrightarrow> amp = NotQuantity) \<and>
     (ps_validate_amp L (fsh, fu) amp = Inl ValueError \<longleftrightarrow>
        (\<exists>sh un. amp = Quantity sh un \<and> sh \<noteq> [] \<and> hd sh \<noteq> hd fsh)) \<and>
     (ps_validate_amp L (fsh, fu) amp = Inl UnitsError \<longleftrightarrow>
        (\<exists>sh un. amp = Quantity sh un \<and> sh \<noteq> [] \<and> hd sh = hd fsh
           \<and> \<not> to_output_ok L fu (per_sr L un))) \<and>
     (ps_validate_amp L (fsh, fu) amp = Inr () \<longleftrightarrow>
        (\<exists>sh un. amp = Quantity sh un \<and> sh \<noteq> [] \<and> hd sh = hd fsh
           \<and> to_output_ok L fu (per_sr L un)))) \<and>
   (validate_freq_ref L (Quantity fsh fu) = Inr () \<longrightarrow>
     (\<forall>e. ps_validate_amp L (fsh, fu) amp = Inl e \<longrightarrow>
        point_source_init L cat amp (Quantity fsh fu) ps = Inl e) \<and>
     (\<forall>e. ps_validate_amp L (fsh, fu) (Quantity ash un) = Inr () \<and>
          validate_catalog ash csh = Inl e \<longrightarrow>
        point_source_init L (Some csh) (Quantity ash un) (Quantity fsh fu) ps = Inl e) \<and>
     (point_source_init L cat amp (Quantity fsh fu) ps = Inr () \<longleftrightarrow>
        (\<exists>sh un csh. amp = Quantity sh un \<and> cat = Some csh \<and>
           ps_validate_amp L (fsh, fu) amp = Inr () \<and>
           validate_catalog sh csh = Inr () \<and>
           ps_validate_spectral_parameters sh ps = Inr ()))) \<and>
   (2 \<le> length csh \<and> 2 \<le> length ash \<and> csh ! 1 \<noteq> ash ! 1 \<longrightarrow>
      validate_catalog ash csh = Inl ValueError \<and>
      (\<exists>e. point_source_init L (Some csh) (Quantity ash un) freq_ref ps = Inl e)) \<and>
   (point_source_init L cat amp freq_ref ps = Inr () \<longrightarrow>
      (\<exists>csh sh un. cat = Some csh \<and> amp = Quantity sh un \<and> 2 \<le> length csh \<and> 2 \<le> length sh
         \<and> csh ! 1 = sh ! 1))"
proof -
  have 1: "\<forall>e. validate_freq_ref L freq_ref = Inl e \<longrightarrow>
        point_source_init L cat amp freq_ref ps = Inl e \<and> diffuse_init L amp freq_ref ps = Inl e"
    by (simp add: point_source_init_def diffuse_init_def)
  have 2: "ps_validate_amp L (fsh, fu) (Quantity (s # n # sh') un) =
     ps_validate_amp L (fsh, fu) (Quantity (s # n' # sh') un)"
    by (simp add: ps_validate_amp_def shape_at_def)
  have 3: "fsh \<noteq> [] \<longrightarrow>
     (ps_validate_amp L (fsh, fu) amp = Inl TypeError \<longleftrightarrow> amp = NotQuantity) \<and>
     (ps_validate_amp L (fsh, fu) amp = Inl ValueError \<longleftrightarrow>
        (\<exists>sh un. amp = Quantity sh un \<and> sh \<noteq> [] \<and> hd sh \<noteq> hd fsh)) \<and>
     (ps_validate_amp L (fsh, fu) amp = Inl UnitsError \<longleftrightarrow>
        (\<exists>sh un. amp = Quantity sh un \<and> sh \<noteq> [] \<and> hd sh = hd fsh
           \<and> \<not> to_output_ok L fu (per_sr L un))) \<and>
     (ps_validate_amp L (fsh, fu) amp = Inr () \<longleftrightarrow>
        (\<exists>sh un. amp = Quantity sh un \<and> sh \<noteq> [] \<and> hd sh = hd fsh
           \<and> to_output_ok L fu (per_sr L un)))"
    using ps_validate_amp_cases[of fsh L fu amp] by blast
  have 4: "validate_freq_ref L (Quantity fsh fu) = Inr () \<longrightarrow>
     (\<forall>e. ps_validate_amp L (fsh, fu) amp = Inl e \<longrightarrow>
        point_source_init L cat amp (Quantity fsh fu) ps = Inl e) \<and>
     (\<forall>e. ps_validate_amp L (fsh, fu) (Quantity ash un) = Inr () \<and>
          validate_catalog ash csh = Inl e \<longrightarrow>
        point_source_init L (Some csh) (Quantity ash un) (Quantity fsh fu) ps = Inl e) \<and>
     (point_source_init L cat amp (Quantity fsh fu) ps = Inr () \<longleftrightarrow>
        (\<exists>sh un csh. amp = Quantity sh un \<and> cat = Some csh \<and>
           ps_validate_amp L (fsh, fu) amp = Inr () \<and>
           validate_catalog sh csh = Inr () \<and>
           ps_validate_spectral_parameters sh ps = Inr ()))"
    using point_source_init_amp_error[of L fsh fu amp _ cat ps]
      point_source_init_catalog_error[of L fsh fu ash un csh _ ps]
      point_source_init_ok_iff[of L fsh fu cat amp ps]
    by (intro impI conjI allI) (assumption | blast)+
  have 5: "2 \<le> length csh \<and> 2 \<le> length ash \<and> csh ! 1 \<noteq> ash ! 1 \<longrightarrow>
      validate_catalog ash csh = Inl ValueError \<and>
      (\<exists>e. point_source_init L (Some csh) (Quantity ash un) freq_ref ps = Inl e)"
    by (auto simp: validate_catalog_mismatch point_source_init_def split: sum.splits pyobj.splits)
  have 6: "point_source_init L cat amp freq_ref ps = Inr () \<longrightarrow>
      (\<exists>csh sh un. cat = Some csh \<and> amp = Quantity sh un \<and> 2 \<le> length csh \<and> 2 \<le> length sh
         \<and> csh ! 1 = sh ! 1)"
    using point_source_init_catalog[of L cat amp freq_ref ps] validate_catalog_ok_iff by blast
  show ?thesis
    apply (insert 1 2 3 4 5 6)
    apply (intro conjI)
         apply assumption+
    done
qed

theorem point_source_spec_witness:
  "validate_freq_ref example_libs (Quantity [1, 1] GHz) = Inr () \<and>
   ps_validate_amp example_libs ([1, 1], GHz) (Quantity [1, 5] MJy) = Inr () \<and>
   ps_validate_amp example_libs ([1, 1], GHz) (Quantity [1, 5] MJy) =
     ps_validate_amp example_libs ([1, 1], GHz) (Quantity [1, 12] MJy) \<and>
   point_source_init example_libs (Some [3, 5]) (Quantity [1, 5] MJy) (Quantity [1, 1] GHz)
     [(''specind'', Quantity [1, 5] Other_unit)] = Inr () \<and>
   point_source_init example_libs (Some [3, 5]) (Quantity [3, 5] MJy) (Quantity [1, 1] GHz) []
     = Inl ValueError \<and>
   point_source_init example_libs (Some [3, 5]) (Quantity [1, 5] uK_RJ) (Quantity [1, 1] GHz) []
     = Inl UnitsError \<and>
   validate_catalog [1, 5] [3, 4] = Inl ValueError \<and>
   point_source_init example_libs (Some [3, 4]) (Quantity [1, 5] MJy) (Quantity [1, 1] GHz) []
     = Inl ValueError \<and>
   point_source_init example_libs (Some [3, 5]) (Quantity [1, 5] MJy) (Quantity [2, 1] GHz) []
     = Inl ValueError"
proof -
  have f: "validate_freq_ref example_libs (Quantity [1, 1] GHz) = Inr ()"
    by (simp add: validate_freq_ref_def example_libs_def)
  have a: "ps_validate_amp example_libs ([1, 1], GHz) (Quantity [1, 5] MJy) = Inr ()"
    using point_source_spec[where L = example_libs and fsh = "[1, 1]" and fu = GHz
        and amp = "Quantity [1, 5] MJy"]
    by (simp add: example_libs_def)
  have a2: "ps_validate_amp example_libs ([1, 1], GHz) (Quantity [1, 5] MJy) =
     ps_validate_amp example_libs ([1, 1], GHz) (Quantity [1, 12] MJy)"
    using point_source_spec[where L = example_libs and fsh = "[1, 1]" and fu = GHz
        and s = 1 and n = 5 and n' = 12 and sh' = "[]" and un = MJy]
    by blast
  have c: "validate_catalog [1, 5] [3, 5] = Inr ()"
    by (simp add: validate_catalog_def shape_at_def)
  have p: "ps_validate_spectral_parameters [1, 5] [(''specind'', Quantity [1, 5] Other_unit)]
      = Inr ()"
    by (simp add: ps_check_parameter_def shape_at_def)
  have 1: "point_source_init example_libs (Some [3, 5]) (Quantity [1, 5] MJy)
      (Quantity [1, 1] GHz) [(''specind'', Quantity [1, 5] Other_unit)] = Inr ()"
    using point_source_spec[where L = example_libs and fsh = "[1, 1]" and fu = GHz
        and amp = "Quantity [1, 5] MJy" and cat = "Some [3, 5]"
        and ps = "[(''specind'', Quantity [1, 5] Other_unit)]"] f a c p
    by simp
  have av: "ps_validate_amp example_libs ([1, 1], GHz) (Quantity [3, 5] MJy) = Inl ValueError"
    using point_source_spec[where L = example_libs and fsh = "[1, 1]" and fu = GHz
        and amp = "Quantity [3, 5] MJy"]
    by simp
  have 2: "point_source_init example_libs (Some [3, 5]) (Quantity [3, 5] MJy)
      (Quantity [1, 1] GHz) [] = Inl ValueError"
    using point_source_spec[where L = example_libs and fsh = "[1, 1]" and fu = GHz
        and amp = "Quantity [3, 5] MJy" and cat = "Some [3, 5]" and ps = "[]"] f av
    by simp
  have au: "ps_validate_amp example_libs ([1, 1], GHz) (Quantity [1, 5] uK_RJ) = Inl UnitsError"
    using point_source_spec[where L = example_libs and fsh = "[1, 1]" and fu = GHz
        and amp = "Quantity [1, 5] uK_RJ"]
    by (simp add: example_libs_def)
  have 3: "point_source_init example_libs (Some [3, 5]) (Quantity [1, 5] uK_RJ)
      (Quantity [1, 1] GHz) [] = Inl UnitsError"
    using point_source_spec[where L = example_libs and fsh = "[1, 1]" and fu = GHz
        and amp = "Quantity [1, 5] uK_RJ" and cat = "Some [3, 5]" and ps = "[]"] f au
    by simp
  have 4: "validate_catalog [1, 5] [3, 4] = Inl ValueError"
    using point_source_spec[where csh = "[3, 4]" and ash = "[1, 5]" and L = example_libs]
    by simp
  have 5: "point_source_init example_libs (Some [3, 4]) (Quantity [1, 5] MJy)
      (Quantity [1, 1] GHz) [] = Inl ValueError"
    using point_source_spec[where L = example_libs and fsh = "[1, 1]" and fu = GHz
        and ash = "[1, 5]" and un = MJy and csh = "[3, 4]" and ps = "[]"] f a 4
    by simp
  have fv: "validate_freq_ref example_libs (Quantity [2, 1] GHz) = Inl ValueError"
    by (simp add: validate_freq_ref_def example_libs_def shape_at_def)
  have 6: "point_source_init example_libs (Some [3, 5]) (Quantity [1, 5] MJy)
      (Quantity [2, 1] GHz) [] = Inl ValueError"
    using point_source_spec[where L = example_libs and freq_ref = "Quantity [2, 1] GHz"
        and cat = "Some [3, 5]" and amp = "Quantity [1, 5] MJy" and ps = "[]"] fv
    by simp
  from f a a2 1 2 3 4 5 6 show ?thesis by simp
qed

section \<open>Frequency scaling\<close>

subsection \<open>Range of the floats\<close>

lemma tiny64_bound: "(1 / 2 ^ 1075 :: real) < 1 / 10 ^ 300"
  by simp

lemma huge64_bound: "(10 ^ 300 :: real) < 2 ^ 1024"
  by simp

lemma pow10_pos: "(0::real) < 1 / 10 ^ m"
  by simp

lemma rnd64_pow10:
  assumes "1 / 10 ^ m \<le> v" and "v \<le> 10 ^ n" and "m \<le> 300" and "n \<le> 300"
  shows "rnd Float64 v = Fin v"
proof -
  have "(10::real) ^ m \<le> 10 ^ 300" using assms(3) by (intro power_increasing) simp_all
  then have "(1 / 10 ^ 300 :: real) \<le> 1 / 10 ^ m" by (intro divide_left_mono) simp_all
  with assms(1) tiny64_bound have t: "1 / 2 ^ 1075 < v" by linarith
  have "(10::real) ^ n \<le> 10 ^ 300" using assms(4) by (intro power_increasing) simp_all
  with assms(2) huge64_bound have h: "v < 2 ^ 1024" by linarith
  have "0 < v" using pow10_pos[of m] assms(1) by linarith
  with t h show ?thesis by (simp add: rnd_def)
qed

lemma mult_le_pow10:
  "0 \<le> a \<Longrightarrow> 0 \<le> b \<Longrightarrow> a \<le> 10 ^ m \<Longrightarrow> b \<le> 10 ^ n \<Longrightarrow> a * b \<le> (10::real) ^ (m + n)"
  by (simp add: power_add mult_mono)

lemma mult_ge_pow10:
  assumes "1 / 10 ^ m \<le> a" and "1 / 10 ^ n \<le> b"
  shows "1 / 10 ^ (m + n) \<le> a * (b::real)"
proof -
  have "0 \<le> a" using assms(1) pow10_pos[of m] by linarith
  with assms have "(1 / 10 ^ m) * (1 / 10 ^ n) \<le> a * b"
    by (intro mult_mono) simp_all
  then show ?thesis by (simp add: power_add)
qed

lemma div_le_pow10:
  assumes "0 \<le> a" and "a \<le> 10 ^ m" and "1 / 10 ^ n \<le> b"
  shows "a / b \<le> (10::real) ^ (m + n)"
proof -
  have "a / b \<le> 10 ^ m / (1 / 10 ^ n)"
    using assms by (intro frac_le) simp_all
  then show ?thesis by (simp add: power_add)
qed

lemma div_ge_pow10:
  assumes "1 / 10 ^ m \<le> a" and "0 < b" and "b \<le> 10 ^ n"
  shows "1 / 10 ^ (m + n) \<le> a / (b::real)"
proof -
  have "0 \<le> a" using assms(1) pow10_pos[of m] by linarith
  with assms have "(1 / 10 ^ m) / 10 ^ n \<le> a / b"
    by (intro frac_le) simp_all
  then show ?thesis by (simp add: power_add)
qed

lemma exp_le_pow10: "x \<le> 2 * real n \<Longrightarrow> exp x \<le> 10 ^ n"
proof -
  assume "x \<le> 2 * real n"
  then have "exp x \<le> exp (real n * 2)" by (simp add: mult.commute)
  also have "\<dots> = exp 2 ^ n" by (rule exp_of_nat_mult)
  also have "\<dots> \<le> 10 ^ n"
  proof (intro power_mono)
    have "exp (2::real) = exp 1 * exp 1" by (simp flip: exp_add)
    also have "\<dots> \<le> 3 * 3" by (intro mult_mono exp_le) simp_all
    finally show "exp (2::real) \<le> 10" by simp
  qed simp
  finally show ?thesis .
qed

lemma exp_ge_2_pow: "real n \<le> x \<Longrightarrow> 2 ^ n \<le> exp x"
proof -
  assume a: "real n \<le> x"
  have "(2::real) \<le> exp 1" using exp_ge_add_one_self[of 1] by simp
  then have "(2::real) ^ n \<le> exp 1 ^ n" by (intro power_mono) simp_all
  also have "\<dots> = exp (real n * 1)" by (rule exp_of_nat_mult[symmetric])
  also have "\<dots> \<le> exp x" using a by simp
  finally show ?thesis .
qed

lemma rnd64_overflow: "2 ^ 1024 \<le> v \<Longrightarrow> rnd Float64 v = PInf"
  by (simp add: rnd_def)

lemma rnd64_one: "rnd Float64 1 = Fin 1"
  using rnd64_pow10[of 0 1 0] by simp

lemma rnd64_neg_pow10:
  assumes "- (10 ^ n) \<le> v" and "v \<le> - (1 / 10 ^ m)" and "m \<le> 300" and "n \<le> 300"
  shows "rnd Float64 v = Fin v"
proof -
  have "rnd Float64 (- v) = Fin (- v)"
    using assms by (intro rnd64_pow10[of m _ n]) simp_all
  moreover have "0 < - v" using assms(2) pow10_pos[of m] by linarith
  ultimately show ?thesis
    by (simp add: rnd_def split: if_splits)
qed

lemma fmul_commute: "fmul d a b = fmul d b a"
  by (cases a; cases b) (simp_all add: mult.commute)

lemma fmul_NaN_right: "fmul d a NaN = NaN"
  by (cases a) simp_all

lemma fadd_NaN_right: "fadd d a NaN = NaN"
  by (cases a) simp_all

lemma fpow_pos: "0 < x \<Longrightarrow> x \<noteq> 1 \<Longrightarrow> y \<noteq> 0 \<Longrightarrow> fpow d (Fin x) y = rnd d (x powr y)"
  by simp

subsection \<open>Identity at the reference frequency\<close>

lemma power_law_identity:
  assumes "f \<noteq> 0"
  shows "fpow Float64 (fdiv Float64 (Fin f) (Fin f)) y = Fin 1"
  using assms by (simp add: rnd64_one)

lemma blackbody_numerator:
  assumes "1 \<le> f" and "f \<le> 10 ^ 13"
  shows "fdiv Float64
          (fmul Float64 (fmul Float64 (Fin 2) (Fin const_h)) (fpowi Float64 (Fin f) 3))
          (fpowi Float64 (Fin const_c) 2) = Fin (2 * const_h * f ^ 3 / const_c\<^sup>2)"
    and "1 / 10 ^ 50 \<le> 2 * const_h * f ^ 3 / const_c\<^sup>2"
    and "2 * const_h * f ^ 3 / const_c\<^sup>2 \<le> 10 ^ 39"
proof -
  have hl: "1 / 10 ^ 33 \<le> 2 * const_h" and hu: "2 * const_h \<le> 10 ^ 0"
    by (simp_all add: const_h_def)
  have t1: "fmul Float64 (Fin 2) (Fin const_h) = Fin (2 * const_h)"
  proof -
    have "rnd Float64 (2 * const_h) = Fin (2 * const_h)" using hl hu by (rule rnd64_pow10) simp_all
    then show ?thesis by simp
  qed
  have f3l: "1 / 10 ^ 0 \<le> f ^ 3" using assms(1) by (simp add: one_le_power)
  have f3u: "f ^ 3 \<le> 10 ^ 39"
  proof -
    have "f ^ 3 \<le> (10 ^ 13) ^ 3" using assms by (intro power_mono) simp_all
    then show ?thesis by (simp flip: power_mult)
  qed
  have t2: "fpowi Float64 (Fin f) 3 = Fin (f ^ 3)"
  proof -
    have "rnd Float64 (f ^ 3) = Fin (f ^ 3)" using f3l f3u by (rule rnd64_pow10) simp_all
    then show ?thesis by simp
  qed
  have h0: "0 \<le> 2 * const_h" by (simp add: const_h_def)
  have f0: "0 \<le> f ^ 3" using assms(1) by simp
  have pl: "1 / 10 ^ 33 \<le> 2 * const_h * f ^ 3" using mult_ge_pow10[OF hl f3l] by simp
  have pu: "2 * const_h * f ^ 3 \<le> 10 ^ 39" using mult_le_pow10[OF h0 f0 hu f3u] by simp
  have t3: "fmul Float64 (Fin (2 * const_h)) (Fin (f ^ 3)) = Fin (2 * const_h * f ^ 3)"
  proof -
    have "rnd Float64 (2 * const_h * f ^ 3) = Fin (2 * const_h * f ^ 3)"
      using pl pu by (rule rnd64_pow10) simp_all
    then show ?thesis by simp
  qed
  have cl: "1 / 10 ^ 0 \<le> const_c\<^sup>2" and cu: "const_c\<^sup>2 \<le> 10 ^ 17"
    by (simp_all add: const_c_def)
  have c0: "0 < const_c\<^sup>2" by (simp add: const_c_def)
  have t4: "fpowi Float64 (Fin const_c) 2 = Fin (const_c\<^sup>2)"
  proof -
    have "rnd Float64 (const_c\<^sup>2) = Fin (const_c\<^sup>2)" using cl cu by (rule rnd64_pow10) simp_all
    then show ?thesis by simp
  qed
  have p0: "0 \<le> 2 * const_h * f ^ 3" using h0 f0 by simp
  show nl: "1 / 10 ^ 50 \<le> 2 * const_h * f ^ 3 / const_c\<^sup>2"
    using div_ge_pow10[OF pl c0 cu] by simp
  show nu: "2 * const_h * f ^ 3 / const_c\<^sup>2 \<le> 10 ^ 39"
    using div_le_pow10[OF p0 pu cl] by simp
  have "rnd Float64 (2 * const_h * f ^ 3 / const_c\<^sup>2) = Fin (2 * const_h * f ^ 3 / const_c\<^sup>2)"
    using nl nu by (rule rnd64_pow10) simp_all
  moreover have "const_c\<^sup>2 \<noteq> 0" using c0 by linarith
  ultimately show "fdiv Float64
          (fmul Float64 (fmul Float64 (Fin 2) (Fin const_h)) (fpowi Float64 (Fin f) 3))
          (fpowi Float64 (Fin const_c) 2) = Fin (2 * const_h * f ^ 3 / const_c\<^sup>2)"
    unfolding t1 t2 t3 t4 by (simp only: fdiv.simps if_False)
qed

lemma blackbody_argument:
  assumes "1 \<le> f" and "f \<le> 10 ^ 13" and "1 / 10 ^ 3 \<le> T" and "T \<le> 10 ^ 6"
  shows "fdiv Float64 (fmul Float64 (Fin const_h) (Fin f)) (fmul Float64 (Fin const_k_B) (Fin T))
           = Fin (const_h * f / (const_k_B * T))"
    and "1 / 10 ^ 40 \<le> const_h * f / (const_k_B * T)"
proof -
  have hl: "1 / 10 ^ 34 \<le> const_h" and hu: "const_h \<le> 10 ^ 0" and h0: "0 \<le> const_h"
    by (simp_all add: const_h_def)
  have fl: "1 / 10 ^ 0 \<le> f" and f0: "0 \<le> f" using assms(1) by simp_all
  have ul: "1 / 10 ^ 34 \<le> const_h * f" using mult_ge_pow10[OF hl fl] by simp
  have uu: "const_h * f \<le> 10 ^ 13" using mult_le_pow10[OF h0 f0 hu assms(2)] by simp
  have u: "fmul Float64 (Fin const_h) (Fin f) = Fin (const_h * f)"
  proof -
    have "rnd Float64 (const_h * f) = Fin (const_h * f)" using ul uu by (rule rnd64_pow10) simp_all
    then show ?thesis by simp
  qed
  have kl: "1 / 10 ^ 23 \<le> const_k_B" and ku: "const_k_B \<le> 10 ^ 0" and k0: "0 \<le> const_k_B"
    by (simp_all add: const_k_B_def)
  have T0: "0 < T" using assms(3) pow10_pos[of 3] by linarith
  have wl: "1 / 10 ^ 26 \<le> const_k_B * T" using mult_ge_pow10[OF kl assms(3)] by simp
  have wu: "const_k_B * T \<le> 10 ^ 6" using mult_le_pow10[OF k0 _ ku assms(4)] T0 by simp
  have w0: "0 < const_k_B * T" using wl pow10_pos[of 26] by linarith
  have w: "fmul Float64 (Fin const_k_B) (Fin T) = Fin (const_k_B * T)"
  proof -
    have "rnd Float64 (const_k_B * T) = Fin (const_k_B * T)"
      using wl wu by (rule rnd64_pow10) simp_all
    then show ?thesis by simp
  qed
  have u0: "0 \<le> const_h * f" using h0 f0 by simp
  show xl: "1 / 10 ^ 40 \<le> const_h * f / (const_k_B * T)"
    using div_ge_pow10[OF ul w0 wu] by simp
  have xu: "const_h * f / (const_k_B * T) \<le> 10 ^ 39"
    using div_le_pow10[OF u0 uu wl] by simp
  have "rnd Float64 (const_h * f / (const_k_B * T)) = Fin (const_h * f / (const_k_B * T))"
    using xl xu by (rule rnd64_pow10) simp_all
  moreover have "const_k_B * T \<noteq> 0" using w0 by linarith
  ultimately show "fdiv Float64 (fmul Float64 (Fin const_h) (Fin f))
      (fmul Float64 (Fin const_k_B) (Fin T)) = Fin (const_h * f / (const_k_B * T))"
    unfolding u w by (simp only: fdiv.simps if_False)
qed

lemma blackbody_emission_finite:
  assumes "1 \<le> f" and "f \<le> 10 ^ 13" and "1 / 10 ^ 3 \<le> T" and "T \<le> 10 ^ 6"
    and x: "const_h * f / (const_k_B * T) \<le> 400"
  shows "\<exists>b. blackbody_emission (Fin f) (Fin T) = Fin b \<and> 0 < b"
proof -
  define n where "n = 2 * const_h * f ^ 3 / const_c\<^sup>2"
  define x where "x = const_h * f / (const_k_B * T)"
  note N = blackbody_numerator[OF assms(1,2), folded n_def]
  note X = blackbody_argument[OF assms(1-4), folded x_def]
  have xu: "x \<le> 2 * real 200" using assms(5) by (simp add: x_def)
  have x0: "0 < x" using X(2) pow10_pos[of 40] by linarith
  have ml: "1 / 10 ^ 40 \<le> exp x - 1" using exp_ge_add_one_self[of x] X(2) by linarith
  have mu: "exp x - 1 \<le> 10 ^ 200" using exp_le_pow10[OF xu] by linarith
  have m0: "0 < exp x - 1" using x0 by simp
  have M: "fexpm1 Float64 (Fin x) = Fin (exp x - 1)"
  proof -
    have "rnd Float64 (exp x - 1) = Fin (exp x - 1)" using ml mu by (rule rnd64_pow10) simp_all
    then show ?thesis by simp
  qed
  have n0: "0 \<le> n" using N(2) pow10_pos[of 50] by linarith
  have bl: "1 / 10 ^ 250 \<le> n / (exp x - 1)" using div_ge_pow10[OF N(2) m0 mu] by simp
  have bu: "n / (exp x - 1) \<le> 10 ^ 79" using div_le_pow10[OF n0 N(3) ml] by simp
  have "rnd Float64 (n / (exp x - 1)) = Fin (n / (exp x - 1))"
    using bl bu by (rule rnd64_pow10) simp_all
  moreover have "exp x - 1 \<noteq> 0" using m0 by linarith
  ultimately have "blackbody_emission (Fin f) (Fin T) = Fin (n / (exp x - 1))"
    unfolding blackbody_emission_def N(1) X(1) M by (simp only: fdiv.simps if_False)
  moreover have "0 < n / (exp x - 1)" using bl pow10_pos[of 250] by linarith
  ultimately show ?thesis by blast
qed

lemma blackbody_emission_underflow:
  assumes "1 \<le> f" and "f \<le> 10 ^ 13" and "1 / 10 ^ 3 \<le> T" and "T \<le> 10 ^ 6"
    and x: "1025 \<le> const_h * f / (const_k_B * T)"
  shows "blackbody_emission (Fin f) (Fin T) = Fin 0"
proof -
  define x where "x = const_h * f / (const_k_B * T)"
  note N = blackbody_numerator[OF assms(1,2)]
  note X = blackbody_argument[OF assms(1-4), folded x_def]
  have "real 1025 \<le> x" using assms(5) by (simp add: x_def)
  then have e: "2 ^ 1025 \<le> exp x" by (rule exp_ge_2_pow)
  have "(2::real) ^ 1025 = 2 ^ 1024 + 2 ^ 1024" by simp
  moreover have "(1::real) \<le> 2 ^ 1024" by (rule one_le_power) simp
  ultimately have "(2::real) ^ 1024 \<le> exp x - 1" using e by linarith
  then have M: "fexpm1 Float64 (Fin x) = PInf" by (simp add: rnd64_overflow)
  show ?thesis
    unfolding blackbody_emission_def N(1) X(1) M by simp
qed

lemma dust_identity:
  assumes "f \<noteq> 0" and "blackbody_emission (Fin f) (Fin T) = Fin b" and "b \<noteq> 0"
  shows "dust_get_freq_scaling (Fin f) (Fin f) beta (Fin T) = Fin 1"
  using assms by (simp add: dust_get_freq_scaling_def Let_def rnd64_one)

lemma dust_nan:
  assumes "blackbody_emission (Fin f) (Fin T) = Fin 0"
  shows "dust_get_freq_scaling (Fin f) (Fin f) beta (Fin T) = NaN"
  using assms by (simp add: dust_get_freq_scaling_def Let_def signed_inf_def rnd64_one)

text \<open>Claim C2, amended. For a positive reference frequency and any spectral index, the
  power-law scalings of Synchrotron and Radio at \<open>freq = freq_ref\<close> are exactly one. The
  modified-blackbody scaling of Dust at \<open>freq = freq_ref\<close> is exactly one whenever the
  blackbody emission at \<open>freq_ref\<close> and \<open>T\<close> is a float other than zero, infinity and nan; this
  is so for \<open>1 Hz \<le> freq_ref \<le> 10\<^sup>1\<^sup>3 Hz\<close>, \<open>10\<^sup>-\<^sup>3 K \<le> T \<le> 10\<^sup>6 K\<close> and
  \<open>h freq_ref / (k\<^sub>B T) \<le> 400\<close>. In the same range of \<open>freq_ref\<close> and \<open>T\<close> with
  \<open>h freq_ref / (k\<^sub>B T) \<ge> 1025\<close>, \<^verbatim>\<open>expm1\<close> overflows, the blackbody emission is zero and the
  scaling is nan.\<close>

theorem identity_at_reference_amended:
  "(0 < f \<longrightarrow>
      synchrotron_get_freq_scaling (Fin f) (Fin f) beta = Fin 1 \<and>
      radio_get_freq_scaling (Fin f) (Fin f) specind = Fin 1) \<and>
   (0 < f \<and> blackbody_emission (Fin f) (Fin T) = Fin b \<and> b \<noteq> 0 \<longrightarrow>
      dust_get_freq_scaling (Fin f) (Fin f) beta (Fin T) = Fin 1) \<and>
   (1 \<le> f \<and> f \<le> 10 ^ 13 \<and> 1 / 10 ^ 3 \<le> T \<and> T \<le> 10 ^ 6
      \<and> const_h * f / (const_k_B * T) \<le> 400 \<longrightarrow>
      dust_get_freq_scaling (Fin f) (Fin f) beta (Fin T) = Fin 1) \<and>
   (1 \<le> f \<and> f \<le> 10 ^ 13 \<and> 1 / 10 ^ 3 \<le> T \<and> T \<le> 10 ^ 6
      \<and> 1025 \<le> const_h * f / (const_k_B * T) \<longrightarrow>
      dust_get_freq_scaling (Fin f) (Fin f) beta (Fin T) = NaN)"
proof (intro conjI impI)
  assume "0 < f"
  then have f: "f \<noteq> 0" by simp
  show "synchrotron_get_freq_scaling (Fin f) (Fin f) beta = Fin 1"
    unfolding synchrotron_get_freq_scaling_def using f by (rule power_law_identity)
  show "radio_get_freq_scaling (Fin f) (Fin f) specind = Fin 1"
    unfolding radio_get_freq_scaling_def using f by (rule power_law_identity)
next
  assume "0 < f \<and> blackbody_emission (Fin f) (Fin T) = Fin b \<and> b \<noteq> 0"
  then show "dust_get_freq_scaling (Fin f) (Fin f) beta (Fin T) = Fin 1"
    using dust_identity[of f T b beta] by simp
next
  assume a: "1 \<le> f \<and> f \<le> 10 ^ 13 \<and> 1 / 10 ^ 3 \<le> T \<and> T \<le> 10 ^ 6
      \<and> const_h * f / (const_k_B * T) \<le> 400"
  then obtain b where "blackbody_emission (Fin f) (Fin T) = Fin b" "0 < b"
    using blackbody_emission_finite[of f T] by blast
  moreover have "f \<noteq> 0" using a by linarith
  ultimately show "dust_get_freq_scaling (Fin f) (Fin f) beta (Fin T) = Fin 1"
    using dust_identity[of f T b beta] by simp
next
  assume a: "1 \<le> f \<and> f \<le> 10 ^ 13 \<and> 1 / 10 ^ 3 \<le> T \<and> T \<le> 10 ^ 6
      \<and> 1025 \<le> const_h * f / (const_k_B * T)"
  then have "blackbody_emission (Fin f) (Fin T) = Fin 0"
    using blackbody_emission_underflow[of f T] by blast
  then show "dust_get_freq_scaling (Fin f) (Fin f) beta (Fin T) = NaN"
    by (rule dust_nan)
qed

theorem identity_at_reference_amended_witness:
  "(0::real) < 30 * 10 ^ 9 \<and>
   synchrotron_get_freq_scaling (Fin (30 * 10 ^ 9)) (Fin (30 * 10 ^ 9)) (- 3) = Fin 1 \<and>
   radio_get_freq_scaling (Fin (30 * 10 ^ 9)) (Fin (30 * 10 ^ 9)) (1 / 2) = Fin 1 \<and>
   dust_get_freq_scaling (Fin (545 * 10 ^ 9)) (Fin (545 * 10 ^ 9)) (3 / 2) (Fin 20) = Fin 1"
proof -
  have x: "const_h * (545 * 10 ^ 9) / (const_k_B * 20) \<le> 400"
    by (simp add: const_h_def const_k_B_def)
  show ?thesis
    using x identity_at_reference_amended[where f = "30 * 10 ^ 9" and beta = "- 3" and specind = "1 / 2"]
      identity_at_reference_amended[where f = "545 * 10 ^ 9" and T = 20 and beta = "3 / 2"]
    by simp
qed

text \<open>Counterexample to claim C2 as first stated. At \<open>freq = freq_ref = 545 GHz\<close> and
  \<open>T = 0.01 K\<close>, both positive, the Dust scaling is nan.\<close>

theorem dust_any_temperature_counterexample:
  "dust_get_freq_scaling (Fin (545 * 10 ^ 9)) (Fin (545 * 10 ^ 9)) (3 / 2) (Fin (1 / 100)) = NaN \<and>
   (0::real) < 545 * 10 ^ 9 \<and> (0::real) < 1 / 100"
proof -
  have x: "1025 \<le> const_h * (545 * 10 ^ 9) / (const_k_B * (1 / 100))"
    by (simp add: const_h_def const_k_B_def)
  have "blackbody_emission (Fin (545 * 10 ^ 9)) (Fin (1 / 100)) = Fin 0"
    using x by (intro blackbody_emission_underflow) simp_all
  then have "dust_get_freq_scaling (Fin (545 * 10 ^ 9)) (Fin (545 * 10 ^ 9)) (3 / 2) (Fin (1 / 100)) = NaN"
    by (rule dust_nan)
  then show ?thesis by simp
qed

subsection \<open>Free-free\<close>

lemma gaunt_at_Float64: "gaunt_at Float64 nu t = Gaunt nu t"
  by (simp add: gaunt_at_def Gaunt_def)

lemma map_zip_map_same: "map F (zip (map g xs) (map h xs)) = map (\<lambda>x. F (g x, h x)) xs"
  by (induction xs) simp_all

lemma lot_get_freq_scaling_elementwise:
  "lot_get_freq_scaling nu_ref nu T_e =
     (Float64, map (\<lambda>Te. free_free_scaling_spec nu_ref nu (cast Float64 Te)) (snd T_e))"
  by (simp add: lot_get_freq_scaling_def Let_def astype_def gaunt_factor_def nd_divide_def
      nd_imul_def result_type_def free_free_scaling_spec_def o_def map_zip_map_same
      gaunt_at_Float64 fmul_commute[of _ "fdiv Float64 a b" for a b])

lemma sqrt3_over_pi:
  "fdiv Float64 (fsqrt Float64 (Fin 3)) (Fin pi) = Fin (sqrt 3 / pi)"
  "1 / 4 \<le> sqrt 3 / pi" "sqrt 3 / pi \<le> 1"
proof -
  have s1: "1 \<le> sqrt 3" by simp
  have s2: "sqrt 3 \<le> 2" by (rule real_le_lsqrt) simp_all
  have p1: "2 \<le> pi" by (rule pi_ge_two)
  have p2: "pi \<le> 4" using pi_less_4 by simp
  have a: "rnd Float64 (sqrt 3) = Fin (sqrt 3)"
    using s1 s2 by (intro rnd64_pow10[of 0 _ 1]) simp_all
  have "1 / 4 * pi \<le> sqrt 3" using s1 p2 by linarith
  then show l: "1 / 4 \<le> sqrt 3 / pi"
    using p1 by (simp only: pos_le_divide_eq[of pi, symmetric])
  show u: "sqrt 3 / pi \<le> 1" using s2 p1 by simp
  have b: "rnd Float64 (sqrt 3 / pi) = Fin (sqrt 3 / pi)"
    using l u by (intro rnd64_pow10[of 1 _ 0]) simp_all
  show "fdiv Float64 (fsqrt Float64 (Fin 3)) (Fin pi) = Fin (sqrt 3 / pi)"
    using a b p1 by simp
qed

lemma powr_pow34:
  assumes x: "0 < (x::real)"
  shows "(x ^ 34) powr (- (3 / 2)) = 1 / x ^ 51"
proof -
  have e: "real 34 * (- (3 / 2)) = - real 51" by simp
  have "(x ^ 34) powr (- (3 / 2)) = (x powr (real 34)) powr (- (3 / 2))"
    using x by (simp only: powr_realpow)
  also have "\<dots> = x powr (real 34 * (- (3 / 2)))" by (simp only: powr_powr)
  also have "\<dots> = x powr (- real 51)" by (simp only: e)
  also have "\<dots> = inverse (x powr real 51)" by (simp only: powr_minus)
  also have "\<dots> = 1 / x ^ 51" using x by (simp only: powr_realpow inverse_eq_divide)
  finally show ?thesis .
qed

lemma powr_1e34: "(10 ^ 34 :: real) powr (- (3 / 2)) = 1 / 10 ^ 51"
  by (rule powr_pow34) simp

lemma gaunt_at_Float32_overflow:
  "gaunt_at Float32 nu (Fin (10 ^ 38)) = PInf"
proof -
  have a: "fmul Float32 (Fin (10 ^ 38)) (Fin (1 / 10 ^ 4)) = Fin (10 ^ 34)"
    by (simp add: rnd_def)
  have "fpow Float32 (Fin (10 ^ 34)) (- (3 / 2)) = rnd Float32 ((10 ^ 34) powr (- (3 / 2)))"
    by (rule fpow_pos) simp_all
  also have "\<dots> = rnd Float32 (1 / 10 ^ 51)" by (simp only: powr_1e34)
  also have "\<dots> = Fin 0" by (simp add: rnd_def)
  finally have b: "fpow Float32 (Fin (10 ^ 34)) (- (3 / 2)) = Fin 0" .
  have c: "fmul Float32 (Fin nu) (Fin 0) = Fin 0" by (simp add: rnd_def)
  have k: "0 < sqrt 3 / pi" using sqrt3_over_pi(2) by linarith
  have d: "fmul Float32 (Fin (sqrt 3 / pi)) NInf = NInf"
    using k by (simp add: signed_inf_def)
  show ?thesis
    unfolding gaunt_at_def a b c sqrt3_over_pi(1)
    by (simp add: d fsub_def signed_inf_def)
qed

lemma gaunt_at_Float64_finite:
  assumes "1 \<le> nu" and "nu \<le> 10 ^ 13"
  shows "\<exists>v. gaunt_at Float64 nu (Fin (10 ^ 38)) = Fin v \<and> 1 \<le> v \<and> v \<le> 10 ^ 104"
proof -
  define c where "c = sqrt 3 / pi"
  note C = sqrt3_over_pi[folded c_def]
  have a: "fmul Float64 (Fin (10 ^ 38)) (Fin (1 / 10 ^ 4)) = Fin (10 ^ 34)"
    by (simp add: rnd_def)
  have "fpow Float64 (Fin (10 ^ 34)) (- (3 / 2)) = rnd Float64 ((10 ^ 34) powr (- (3 / 2)))"
    by (rule fpow_pos) simp_all
  also have "\<dots> = rnd Float64 (1 / 10 ^ 51)" by (simp only: powr_1e34)
  also have "\<dots> = Fin (1 / 10 ^ 51)" by (intro rnd64_pow10[of 51 _ 0]) simp_all
  finally have b: "fpow Float64 (Fin (10 ^ 34)) (- (3 / 2)) = Fin (1 / 10 ^ 51)" .
  define x where "x = nu * (1 / 10 ^ 51)"
  have xl: "1 / 10 ^ 51 \<le> x" using mult_ge_pow10[of 0 nu 51 "1 / 10 ^ 51"] assms(1) by (simp add: x_def)
  have xu: "x \<le> 1 / 10 ^ 38"
  proof -
    have "nu * (1 / 10 ^ 51) \<le> 10 ^ 13 * (1 / 10 ^ 51)"
      using assms(2) by (intro mult_right_mono) simp_all
    then show ?thesis by (simp add: x_def)
  qed
  have x0: "0 < x" using xl pow10_pos[of 51] by linarith
  have "rnd Float64 x = Fin x"
  proof (rule rnd64_pow10[of 51 _ 0])
    show "x \<le> 10 ^ 0" using xu by (simp add: field_simps) 
  qed (use xl in simp_all)
  then have m: "fmul Float64 (Fin nu) (Fin (1 / 10 ^ 51)) = Fin x" by (simp add: x_def)
  have x12: "x \<le> 1 / 2"
  proof -
    have "(1 / 10 ^ 38 :: real) \<le> 1 / 2" by simp
    then show ?thesis using xu by linarith
  qed
  have lu: "ln x \<le> - (1 / 10 ^ 1)" using ln_le_minus_one[OF x0] x12 by simp
  have ll2: "- 200 \<le> ln x"
  proof -
    have "(2::real) ^ 200 \<le> exp (real 200)" by (rule exp_ge_2_pow) simp
    moreover have "(10 ^ 51 :: real) \<le> 2 ^ 200" by simp
    ultimately have "10 ^ 51 \<le> exp (200::real)" by simp
    then have "1 / exp (200::real) \<le> 1 / 10 ^ 51" by (intro frac_le) simp_all
    moreover have "exp (- 200 :: real) = 1 / exp 200" by (simp add: exp_minus inverse_eq_divide)
    ultimately have "exp (- 200 :: real) \<le> x" using xl by linarith
    then show ?thesis using x0 by (simp add: ln_ge_iff)
  qed
  have "rnd Float64 (ln x) = Fin (ln x)"
    using ll2 lu by (intro rnd64_neg_pow10[of 3 _ 1]) simp_all
  then have l: "fln Float64 (Fin x) = Fin (ln x)" using x0 by simp
  define y where "y = c * ln x"
  have lneg: "ln x \<le> 0" using lu by simp
  have c0: "0 \<le> c" using C(2) by linarith
  have yu: "y \<le> 0" unfolding y_def using c0 lneg by (rule mult_nonneg_nonpos)
  have yl: "- 200 \<le> y"
  proof -
    have "1 * ln x \<le> c * ln x" using C(3) lneg by (rule mult_right_mono_neg)
    then show ?thesis using ll2 by (simp add: y_def)
  qed
  have yu2: "y \<le> - (1 / 10 ^ 2)"
  proof -
    have h: "c * ln x \<le> (1 / 4) * ln x" using C(2) lneg by (rule mult_right_mono_neg)
    have lu': "ln x \<le> - (1 / 10)" using lu by simp
    have e: "- (1 / 10 ^ 2) = - (1 / 100 :: real)" by simp
    show ?thesis unfolding y_def e using h lu' by linarith
  qed
  have "rnd Float64 y = Fin y"
    using yl yu2 by (intro rnd64_neg_pow10[of 3 _ 2]) simp_all
  then have p: "fmul Float64 (Fin c) (Fin (ln x)) = Fin y" by (simp add: y_def)
  define s where "s = 596 / 100 - y"
  have sl: "1 \<le> s" and su: "s \<le> 206" using yl yu by (simp_all add: s_def)
  have "rnd Float64 s = Fin s" using sl su by (intro rnd64_pow10[of 0 _ 3]) simp_all
  then have q: "fsub Float64 (Fin (596 / 100)) (Fin y) = Fin s" by (simp add: fsub_def s_def)
  have eu: "exp s \<le> 10 ^ 103" using su by (intro exp_le_pow10) simp
  have el: "1 \<le> exp s" using sl by simp
  have "rnd Float64 (exp s) = Fin (exp s)" using el eu by (intro rnd64_pow10[of 0 _ 103]) simp_all
  then have e: "fexp Float64 (Fin s) = Fin (exp s)" by simp
  define z where "z = exp s + exp 1"
  have e1: "exp (1::real) \<le> 3" by (rule exp_le)
  have zl: "exp 1 \<le> z" using el by (simp add: z_def)
  have z1: "1 \<le> z" using el by (simp add: z_def add_increasing2)
  have zu: "z \<le> 10 ^ 104"
  proof -
    have "(10 ^ 104 :: real) = 10 * 10 ^ 103" by simp
    moreover have "(3::real) \<le> 10 ^ 103" by simp
    ultimately show ?thesis using eu e1 unfolding z_def by linarith
  qed
  have "rnd Float64 z = Fin z" using z1 zu by (intro rnd64_pow10[of 0 _ 104]) simp_all
  then have f: "fadd Float64 (Fin (exp s)) (Fin (exp 1)) = Fin z" by (simp add: z_def)
  have z0: "0 < z" using z1 by linarith
  have gl: "1 \<le> ln z" using zl z0 by (simp add: ln_ge_iff)
  have gu: "ln z \<le> 10 ^ 104" using ln_le_minus_one[OF z0] zu by linarith
  have "rnd Float64 (ln z) = Fin (ln z)" using gl gu by (intro rnd64_pow10[of 0 _ 104]) simp_all
  then have g: "fln Float64 (Fin z) = Fin (ln z)" using z0 by simp
  have "gaunt_at Float64 nu (Fin (10 ^ 38)) = Fin (ln z)"
    unfolding gaunt_at_def a b m l C(1) p q e f g by (rule refl)
  then show ?thesis using gl gu by blast
qed

lemma free_free_scaling_spec_finite:
  assumes "1 \<le> nu" and "nu \<le> 10 ^ 13" and "1 \<le> nu_ref" and "nu_ref \<le> 10 ^ 13"
  shows "\<exists>v. free_free_scaling_spec nu_ref nu (Fin (10 ^ 38)) = Fin v"
proof -
  obtain g where g: "Gaunt nu (Fin (10 ^ 38)) = Fin g" "1 / 10 ^ 0 \<le> g" "g \<le> 10 ^ 104"
    using gaunt_at_Float64_finite[OF assms(1,2)] by (auto simp: gaunt_at_Float64)
  obtain g' where g': "Gaunt nu_ref (Fin (10 ^ 38)) = Fin g'" "1 / 10 ^ 0 \<le> g'" "g' \<le> 10 ^ 104"
    using gaunt_at_Float64_finite[OF assms(3,4)] by (auto simp: gaunt_at_Float64)
  have nu0: "0 < nu" and nr0: "0 \<le> nu_ref" using assms by linarith+
  have nul: "1 / 10 ^ 0 \<le> nu" and nrl: "1 / 10 ^ 0 \<le> nu_ref" using assms by simp_all
  have rl: "1 / 10 ^ 13 \<le> nu_ref / nu" using div_ge_pow10[OF nrl nu0 assms(2)] by simp
  have ru: "nu_ref / nu \<le> 10 ^ 13" using div_le_pow10[OF nr0 assms(4) nul] by simp
  have r0: "0 \<le> nu_ref / nu" using rl pow10_pos[of 13] by linarith
  have "rnd Float64 (nu_ref / nu) = Fin (nu_ref / nu)"
    using rl ru by (rule rnd64_pow10) simp_all
  then have r: "fdiv Float64 (Fin nu_ref) (Fin nu) = Fin (nu_ref / nu)" using nu0 by simp
  have e: "(nu_ref / nu)\<^sup>2 = (nu_ref / nu) * (nu_ref / nu)" by (rule power2_eq_square)
  have sl: "1 / 10 ^ 26 \<le> (nu_ref / nu)\<^sup>2" unfolding e using mult_ge_pow10[OF rl rl] by simp
  have su: "(nu_ref / nu)\<^sup>2 \<le> 10 ^ 26" unfolding e using mult_le_pow10[OF r0 r0 ru ru] by simp
  have s0: "0 \<le> (nu_ref / nu)\<^sup>2" by simp
  have "rnd Float64 ((nu_ref / nu)\<^sup>2) = Fin ((nu_ref / nu)\<^sup>2)"
    using sl su by (rule rnd64_pow10) simp_all
  then have s: "fpowi Float64 (Fin (nu_ref / nu)) 2 = Fin ((nu_ref / nu)\<^sup>2)" by simp
  have g0: "0 \<le> g" and g'0: "0 < g'" using g(2) g'(2) by simp_all
  have ql: "1 / 10 ^ 104 \<le> g / g'" using div_ge_pow10[OF g(2) g'0 g'(3)] by simp
  have qu: "g / g' \<le> 10 ^ 104" using div_le_pow10[OF g0 g(3) g'(2)] by simp
  have q0: "0 \<le> g / g'" using g0 g'0 by simp
  have "rnd Float64 (g / g') = Fin (g / g')" using ql qu by (rule rnd64_pow10) simp_all
  then have q: "fdiv Float64 (Fin g) (Fin g') = Fin (g / g')" using g'0 by simp
  have pl: "1 / 10 ^ 130 \<le> (nu_ref / nu)\<^sup>2 * (g / g')" using mult_ge_pow10[OF sl ql] by simp
  have pu: "(nu_ref / nu)\<^sup>2 * (g / g') \<le> 10 ^ 130" using mult_le_pow10[OF s0 q0 su qu] by simp
  have "rnd Float64 ((nu_ref / nu)\<^sup>2 * (g / g')) = Fin ((nu_ref / nu)\<^sup>2 * (g / g'))"
    using pl pu by (rule rnd64_pow10) simp_all
  then have "fmul Float64 (Fin ((nu_ref / nu)\<^sup>2)) (Fin (g / g')) = Fin ((nu_ref / nu)\<^sup>2 * (g / g'))"
    by simp
  then have "free_free_scaling_spec nu_ref nu (Fin (10 ^ 38)) = Fin ((nu_ref / nu)\<^sup>2 * (g / g'))"
    unfolding free_free_scaling_spec_def g(1) g'(1) r s q .
  then show ?thesis ..
qed

text \<open>Claim C3. For every frequency \<open>nu\<close>, reference frequency and array of electron
  temperatures of either precision, the free-free scaling is an array of doubles whose
  elements are \<open>(freq_ref / freq)\<^sup>2 Gaunt(freq, Te) / Gaunt(freq_ref, Te)\<close>, evaluated in
  double precision at the elements \<open>Te\<close> of the array cast to double. The cast comes before
  the Gaunt factor: evaluated on the single-precision array \<open>[10\<^sup>3\<^sup>8]\<close> itself, the Gaunt
  factor at 30 GHz is infinite, and the scaling of that array from 22 GHz to 30 GHz is a
  finite double.\<close>

theorem free_free_scaling_cast:
  "lot_get_freq_scaling nu_ref nu T_e =
     (Float64, map (\<lambda>Te. free_free_scaling_spec nu_ref nu (cast Float64 Te)) (snd T_e)) \<and>
   gaunt_factor (30 * 10 ^ 9) (Float32, [Fin (10 ^ 38)]) = (Float32, [PInf]) \<and>
   (\<exists>v. lot_get_freq_scaling (22 * 10 ^ 9) (30 * 10 ^ 9) (Float32, [Fin (10 ^ 38)])
          = (Float64, [Fin v]))"
proof (intro conjI)
  show "lot_get_freq_scaling nu_ref nu T_e =
     (Float64, map (\<lambda>Te. free_free_scaling_spec nu_ref nu (cast Float64 Te)) (snd T_e))"
    by (rule lot_get_freq_scaling_elementwise)
  show "gaunt_factor (30 * 10 ^ 9) (Float32, [Fin (10 ^ 38)]) = (Float32, [PInf])"
    by (simp only: gaunt_factor_def fst_conv snd_conv list.map gaunt_at_Float32_overflow)
  have c: "cast Float64 (Fin (10 ^ 38)) = Fin (10 ^ 38)" by (simp add: rnd_def)
  obtain v where "free_free_scaling_spec (22 * 10 ^ 9) (30 * 10 ^ 9) (Fin (10 ^ 38)) = Fin v"
    using free_free_scaling_spec_finite[of "30 * 10 ^ 9" "22 * 10 ^ 9"] by auto
  then have "lot_get_freq_scaling (22 * 10 ^ 9) (30 * 10 ^ 9) (Float32, [Fin (10 ^ 38)])
          = (Float64, [Fin v])"
    by (simp only: lot_get_freq_scaling_elementwise snd_conv list.map c)
  then show "\<exists>v. lot_get_freq_scaling (22 * 10 ^ 9) (30 * 10 ^ 9) (Float32, [Fin (10 ^ 38)])
          = (Float64, [Fin v])" ..
qed

theorem free_free_scaling_cast_witness:
  "lot_get_freq_scaling (22 * 10 ^ 9) (30 * 10 ^ 9) (Float32, [Fin 7000, NaN]) =
     (Float64, [free_free_scaling_spec (22 * 10 ^ 9) (30 * 10 ^ 9) (Fin 7000), NaN])"
proof -
  have c: "cast Float64 (Fin 7000) = Fin 7000" by (simp add: rnd_def)
  have n: "free_free_scaling_spec (22 * 10 ^ 9) (30 * 10 ^ 9) NaN = NaN"
    by (simp add: free_free_scaling_spec_def Gaunt_def fsub_def fmul_NaN_right fadd_NaN_right)
  have c': "cast Float64 NaN = NaN" by simp
  have "lot_get_freq_scaling (22 * 10 ^ 9) (30 * 10 ^ 9) (Float32, [Fin 7000, NaN]) =
     (Float64, map (\<lambda>Te. free_free_scaling_spec (22 * 10 ^ 9) (30 * 10 ^ 9) (cast Float64 Te))
        (snd (Float32, [Fin 7000, NaN])))"
    using free_free_scaling_cast[of "22 * 10 ^ 9" "30 * 10 ^ 9" "(Float32, [Fin 7000, NaN])"]
    by (rule conjunct1)
  then show ?thesis by (simp only: snd_conv list.map c c' n)
qed

subsection \<open>CMB\<close>

lemma shape_map_nd: "shape (map_nd f a) = shape a"
proof (induction a)
  case (Scal x)
  show ?case by simp
next
  case (Arr as)
  then show ?case by (cases as) simp_all
qed

lemma cmb_x_bounds:
  assumes "1 \<le> f" and "f \<le> 10 ^ 13"
  shows "1 / 10 ^ 11 \<le> const_h * f / (const_k_B * const_T_0)"
    and "const_h * f / (const_k_B * const_T_0) \<le> 200"
proof -
  define K :: real where "K = const_h / (const_k_B * const_T_0)"
  have x: "const_h * f / (const_k_B * const_T_0) = K * f" by (simp add: K_def)
  have Kl: "1 / 10 ^ 11 \<le> K" and Ku: "K \<le> 2 / 10 ^ 11"
    by (simp_all add: K_def const_h_def const_k_B_def const_T_0_def)
  have "1 / 10 ^ 11 * 1 \<le> K * f"
    using Kl assms(1) by (intro mult_mono) simp_all
  then show "1 / 10 ^ 11 \<le> const_h * f / (const_k_B * const_T_0)" by (simp add: x)
  have "K * f \<le> 2 / 10 ^ 11 * 10 ^ 13"
    using Ku Kl assms by (intro mult_mono) simp_all
  then show "const_h * f / (const_k_B * const_T_0) \<le> 200" by (simp add: x)
qed

lemma cmb_element:
  assumes f1: "1 \<le> f" and f2: "f \<le> 10 ^ 13"
  shows "cmb_scaling_at f = Fin (cmb_scaling_spec f)"
    and "0 < cmb_scaling_spec f"
proof -
  define x where "x = const_h * f / (const_k_B * const_T_0)"
  have xl: "1 / 10 ^ 11 \<le> x" and xu: "x \<le> 200"
    using cmb_x_bounds[OF f1 f2] by (simp_all add: x_def)
  have x0: "0 < x" using xl pow10_pos[of 11] by linarith
  have xu': "x \<le> 10 ^ 3" using xu by simp
  \<comment> \<open>\<open>h * f\<close>, \<open>k_B * T_0\<close> and \<open>x\<close>\<close>
  have hf: "fmul Float64 (Fin const_h) (Fin f) = Fin (const_h * f)"
  proof -
    have "1 / 10 ^ 34 \<le> const_h * f"
      using mult_ge_pow10[of 34 const_h 0 f] f1 by (simp add: const_h_def)
    moreover have "const_h * f \<le> 10 ^ 13"
      using mult_le_pow10[of const_h f 0 13] f1 f2 by (simp add: const_h_def)
    ultimately have "rnd Float64 (const_h * f) = Fin (const_h * f)"
      by (rule rnd64_pow10) simp_all
    then show ?thesis by simp
  qed
  have kT: "fmul Float64 (Fin const_k_B) (Fin const_T_0) = Fin (const_k_B * const_T_0)"
  proof -
    have "1 / 10 ^ 23 \<le> const_k_B * const_T_0" "const_k_B * const_T_0 \<le> 10 ^ 0"
      by (simp_all add: const_k_B_def const_T_0_def)
    then have "rnd Float64 (const_k_B * const_T_0) = Fin (const_k_B * const_T_0)"
      by (rule rnd64_pow10) simp_all
    then show ?thesis by simp
  qed
  have kT0: "const_k_B * const_T_0 \<noteq> 0" by (simp add: const_k_B_def const_T_0_def)
  have X: "fdiv Float64 (Fin (const_h * f)) (Fin (const_k_B * const_T_0)) = Fin x"
  proof -
    have "rnd Float64 x = Fin x" using xl xu' by (rule rnd64_pow10) simp_all
    then show ?thesis using kT0 by (simp add: x_def)
  qed
  \<comment> \<open>\<open>x ** 2\<close>\<close>
  have x2l: "1 / 10 ^ 22 \<le> x\<^sup>2"
    using mult_ge_pow10[OF xl xl] by (simp add: power2_eq_square)
  have x2u: "x\<^sup>2 \<le> 10 ^ 6"
    using mult_le_pow10[of x x 3 3] x0 xu' by (simp add: power2_eq_square)
  have P: "fpowi Float64 (Fin x) 2 = Fin (x\<^sup>2)"
  proof -
    have "rnd Float64 (x\<^sup>2) = Fin (x\<^sup>2)" using x2l x2u by (rule rnd64_pow10) simp_all
    then show ?thesis by simp
  qed
  \<comment> \<open>\<open>exp x\<close>\<close>
  have el: "1 / 10 ^ 0 \<le> exp x" using x0 by simp
  have eu: "exp x \<le> 10 ^ 100" using exp_le_pow10[of x 100] xu by simp
  have E: "fexp Float64 (Fin x) = Fin (exp x)"
  proof -
    have "rnd Float64 (exp x) = Fin (exp x)" using el eu by (rule rnd64_pow10) simp_all
    then show ?thesis by simp
  qed
  \<comment> \<open>the numerator\<close>
  have nl: "1 / 10 ^ 22 \<le> x\<^sup>2 * exp x"
    using mult_ge_pow10[OF x2l el] by simp
  have nu: "x\<^sup>2 * exp x \<le> 10 ^ 106"
    using mult_le_pow10[of "x\<^sup>2" "exp x" 6 100] x2u eu by simp
  have N: "fmul Float64 (Fin (x\<^sup>2)) (Fin (exp x)) = Fin (x\<^sup>2 * exp x)"
  proof -
    have "rnd Float64 (x\<^sup>2 * exp x) = Fin (x\<^sup>2 * exp x)"
      using nl nu by (rule rnd64_pow10) simp_all
    then show ?thesis by simp
  qed
  \<comment> \<open>\<open>expm1 x\<close> and its square\<close>
  have ml: "1 / 10 ^ 11 \<le> exp x - 1" using exp_ge_add_one_self[of x] xl by linarith
  have mu: "exp x - 1 \<le> 10 ^ 100" using eu by linarith
  have m0: "0 < exp x - 1" using x0 by simp
  have M: "fexpm1 Float64 (Fin x) = Fin (exp x - 1)"
  proof -
    have "rnd Float64 (exp x - 1) = Fin (exp x - 1)" using ml mu by (rule rnd64_pow10) simp_all
    then show ?thesis by simp
  qed
  have dl: "1 / 10 ^ 22 \<le> (exp x - 1)\<^sup>2"
    using mult_ge_pow10[OF ml ml] by (simp add: power2_eq_square)
  have du: "(exp x - 1)\<^sup>2 \<le> 10 ^ 200"
    using mult_le_pow10[of "exp x - 1" "exp x - 1" 100 100] m0 mu by (simp add: power2_eq_square)
  have d0: "0 < (exp x - 1)\<^sup>2" using m0 by (rule zero_less_power)
  have D: "fpowi Float64 (Fin (exp x - 1)) 2 = Fin ((exp x - 1)\<^sup>2)"
  proof -
    have "rnd Float64 ((exp x - 1)\<^sup>2) = Fin ((exp x - 1)\<^sup>2)"
      using dl du by (rule rnd64_pow10) simp_all
    then show ?thesis by simp
  qed
  \<comment> \<open>the quotient\<close>
  have n0: "0 \<le> x\<^sup>2 * exp x" by simp
  have ql: "1 / 10 ^ 222 \<le> x\<^sup>2 * exp x / (exp x - 1)\<^sup>2"
    using div_ge_pow10[OF nl d0 du] by simp
  have qu: "x\<^sup>2 * exp x / (exp x - 1)\<^sup>2 \<le> 10 ^ 128"
    using div_le_pow10[OF n0 nu dl] by simp
  have Q: "rnd Float64 (x\<^sup>2 * exp x / (exp x - 1)\<^sup>2) = Fin (x\<^sup>2 * exp x / (exp x - 1)\<^sup>2)"
    using ql qu by (rule rnd64_pow10) simp_all
  have spec: "cmb_scaling_spec f = x\<^sup>2 * exp x / (exp x - 1)\<^sup>2"
    by (simp add: cmb_scaling_spec_def x_def Let_def)
  have d_ne: "(exp x - 1)\<^sup>2 \<noteq> 0" using d0 by linarith
  have "fdiv Float64 (Fin (x\<^sup>2 * exp x)) (Fin ((exp x - 1)\<^sup>2))
          = Fin (x\<^sup>2 * exp x / (exp x - 1)\<^sup>2)"
    using Q d_ne by (simp only: fdiv.simps if_False)
  then show "cmb_scaling_at f = Fin (cmb_scaling_spec f)"
    unfolding cmb_scaling_at_def Let_def hf kT X P E N M D spec .
  have "0 < x\<^sup>2 * exp x / (exp x - 1)\<^sup>2"
    using x0 m0 by (intro divide_pos_pos mult_pos_pos zero_less_power exp_gt_zero)
  then show "0 < cmb_scaling_spec f" by (simp only: spec)
qed

text \<open>Claim C4, amended. The result of the CMB scaling has the shape of \<open>freqs\<close> behind a
  leading axis of size one, whatever the amplitude map. When every frequency lies between
  \<open>1 Hz\<close> and \<open>10\<^sup>1\<^sup>3 Hz\<close>, the scaling is, elementwise, the finite double
  \<open>x\<^sup>2 e\<^sup>x / (e\<^sup>x - 1)\<^sup>2\<close> with \<open>x = h freq / (k\<^sub>B T\<^sub>0)\<close>, and it is strictly positive.\<close>

theorem cmb_scaling_amended:
  "shape (cmb_get_freq_scaling self_amp freqs) = 1 # shape freqs \<and>
   ((\<forall>f \<in> set_nd freqs. 1 \<le> f \<and> f \<le> 10 ^ 13) \<longrightarrow>
      cmb_get_freq_scaling self_amp freqs = Arr [map_nd (\<lambda>f. Fin (cmb_scaling_spec f)) freqs] \<and>
      (\<forall>f \<in> set_nd freqs. 0 < cmb_scaling_spec f))"
proof (intro conjI impI)
  show "shape (cmb_get_freq_scaling self_amp freqs) = 1 # shape freqs"
    by (simp add: cmb_get_freq_scaling_def expand_dims0_def shape_map_nd)
next
  assume a: "\<forall>f \<in> set_nd freqs. 1 \<le> f \<and> f \<le> 10 ^ 13"
  have "map_nd cmb_scaling_at freqs = map_nd (\<lambda>f. Fin (cmb_scaling_spec f)) freqs"
    using a by (intro nd.map_cong refl cmb_element(1)) blast+
  then show "cmb_get_freq_scaling self_amp freqs
      = Arr [map_nd (\<lambda>f. Fin (cmb_scaling_spec f)) freqs]"
    by (simp add: cmb_get_freq_scaling_def expand_dims0_def)
  show "\<forall>f \<in> set_nd freqs. 0 < cmb_scaling_spec f"
    using a cmb_element(2) by blast
qed

theorem cmb_scaling_amended_witness:
  "(1::real) \<le> 30 * 10 ^ 9 \<and> (30 * 10 ^ 9 :: real) \<le> 10 ^ 13 \<and>
   cmb_get_freq_scaling (Arr [Arr [Scal 1, Scal 2], Arr [Scal 0, Scal 0], Arr [Scal 0, Scal 0]])
     (Arr [Scal (30 * 10 ^ 9)]) = Arr [Arr [Scal (Fin (cmb_scaling_spec (30 * 10 ^ 9)))]] \<and>
   shape (cmb_get_freq_scaling (Arr [Arr [Scal 1, Scal 2], Arr [Scal 0, Scal 0], Arr [Scal 0, Scal 0]])
            (Arr [Scal (30 * 10 ^ 9)])) = [1, 1] \<and>
   0 < cmb_scaling_spec (30 * 10 ^ 9)"
proof -
  have p: "\<forall>f \<in> set_nd (Arr [Scal (30 * 10 ^ 9)]). (1::real) \<le> f \<and> f \<le> 10 ^ 13"
    by simp
  show ?thesis
    using p cmb_scaling_amended[of "Arr [Arr [Scal 1, Scal 2], Arr [Scal 0, Scal 0], Arr [Scal 0, Scal 0]]"
              "Arr [Scal (30 * 10 ^ 9)]"]
    by simp
qed

lemma cmb_x_value: "const_h * f / (const_k_B * const_T_0) = f * (132521403 / 7525917699000000000)"
  by (simp add: const_h_def const_k_B_def const_T_0_def)

lemma cmb_hf_kT:
  assumes "1 \<le> f" and "f \<le> 10 ^ 15"
  shows "fdiv Float64 (fmul Float64 (Fin const_h) (Fin f))
           (fmul Float64 (Fin const_k_B) (Fin const_T_0))
         = Fin (const_h * f / (const_k_B * const_T_0))"
proof -
  have hf: "fmul Float64 (Fin const_h) (Fin f) = Fin (const_h * f)"
  proof -
    have "1 / 10 ^ 34 \<le> const_h * f"
      using mult_ge_pow10[of 34 const_h 0 f] assms by (simp add: const_h_def)
    moreover have "const_h * f \<le> 10 ^ 15"
      using mult_le_pow10[of const_h f 0 15] assms by (simp add: const_h_def)
    ultimately have "rnd Float64 (const_h * f) = Fin (const_h * f)"
      by (rule rnd64_pow10) simp_all
    then show ?thesis by simp
  qed
  have kT: "fmul Float64 (Fin const_k_B) (Fin const_T_0) = Fin (const_k_B * const_T_0)"
  proof -
    have "1 / 10 ^ 23 \<le> const_k_B * const_T_0" "const_k_B * const_T_0 \<le> 10 ^ 0"
      by (simp_all add: const_k_B_def const_T_0_def)
    then have "rnd Float64 (const_k_B * const_T_0) = Fin (const_k_B * const_T_0)"
      by (rule rnd64_pow10) simp_all
    then show ?thesis by simp
  qed
  have kT0: "const_k_B * const_T_0 \<noteq> 0" by (simp add: const_k_B_def const_T_0_def)
  have "1 / 10 ^ 11 \<le> f * (132521403 / 7525917699000000000)"
    using mult_ge_pow10[of 0 f 11 "132521403 / 7525917699000000000"] assms by simp
  moreover have "f * (132521403 / 7525917699000000000) \<le> 10 ^ 15"
    using mult_le_pow10[of f "132521403 / 7525917699000000000" 15 0] assms by simp
  ultimately have "rnd Float64 (f * (132521403 / 7525917699000000000))
      = Fin (f * (132521403 / 7525917699000000000))"
    by (rule rnd64_pow10) simp_all
  then show ?thesis
    unfolding hf kT using kT0 by (simp add: cmb_x_value)
qed

lemma cmb_scaling_at_1e14: "cmb_scaling_at (10 ^ 14) = NaN"
proof -
  define x :: real where "x = const_h * 10 ^ 14 / (const_k_B * const_T_0)"
  have X: "fdiv Float64 (fmul Float64 (Fin const_h) (Fin (10 ^ 14)))
             (fmul Float64 (Fin const_k_B) (Fin const_T_0)) = Fin x"
    unfolding x_def by (rule cmb_hf_kT) simp_all
  have xv: "real 1025 \<le> x" by (simp add: x_def cmb_x_value)
  have e: "2 ^ 1025 \<le> exp x" using exp_ge_2_pow[OF xv] .
  have e1: "(2::real) ^ 1024 \<le> exp x" 
  proof -
    have "(2::real) ^ 1024 \<le> 2 ^ 1025" by (intro power_increasing) simp_all
    with e show ?thesis by linarith
  qed
  have e2: "(2::real) ^ 1024 \<le> exp x - 1"
  proof -
    have "(2::real) ^ 1025 = 2 ^ 1024 + 2 ^ 1024" by simp
    moreover have "(1::real) \<le> 2 ^ 1024" by (rule one_le_power) simp
    ultimately show ?thesis using e by linarith
  qed
  have E: "fexp Float64 (Fin x) = PInf" using e1 by (simp add: rnd64_overflow)
  have M: "fexpm1 Float64 (Fin x) = PInf" using e2 by (simp add: rnd64_overflow)
  have x0: "0 < x" using xv by simp
  have xu: "x \<le> 10 ^ 4" by (simp add: x_def cmb_x_value)
  have P: "fpowi Float64 (Fin x) 2 = Fin (x\<^sup>2)"
  proof -
    have "1 \<le> x" using xv by simp
    then have "1 * 1 \<le> x * x" by (intro mult_mono) simp_all
    then have "1 / 10 ^ 0 \<le> x\<^sup>2" by (simp add: power2_eq_square)
    moreover have "x\<^sup>2 \<le> 10 ^ 8"
      using mult_le_pow10[of x x 4 4] x0 xu by (simp add: power2_eq_square)
    ultimately have "rnd Float64 (x\<^sup>2) = Fin (x\<^sup>2)" by (rule rnd64_pow10) simp_all
    then show ?thesis by simp
  qed
  have N: "fmul Float64 (Fin (x\<^sup>2)) PInf = PInf"
    using x0 by (simp add: signed_inf_def)
  show ?thesis
    unfolding cmb_scaling_at_def Let_def X P E M N by simp
qed

lemma cmb_scaling_at_3e13: "cmb_scaling_at (3 * 10 ^ 13) = Fin 0"
proof -
  define x :: real where "x = const_h * (3 * 10 ^ 13) / (const_k_B * const_T_0)"
  have X: "fdiv Float64 (fmul Float64 (Fin const_h) (Fin (3 * 10 ^ 13)))
             (fmul Float64 (Fin const_k_B) (Fin const_T_0)) = Fin x"
    unfolding x_def by (rule cmb_hf_kT) simp_all
  have xl: "real 528 \<le> x" and xu: "x \<le> 2 * real 265"
    by (simp_all add: x_def cmb_x_value)
  have x0: "0 < x" using xl by simp
  have el: "(2::real) ^ 528 \<le> exp x" using exp_ge_2_pow[OF xl] .
  have eu: "exp x \<le> 10 ^ 265" using exp_le_pow10[OF xu] .
  have e1: "1 / 10 ^ 0 \<le> exp x" using x0 by simp
  have E: "fexp Float64 (Fin x) = Fin (exp x)"
  proof -
    have "rnd Float64 (exp x) = Fin (exp x)" using e1 eu by (rule rnd64_pow10) simp_all
    then show ?thesis by simp
  qed
  have x2l: "1 / 10 ^ 0 \<le> x\<^sup>2"
  proof -
    have "1 \<le> x" using xl by simp
    then have "1 * 1 \<le> x * x" by (intro mult_mono) simp_all
    then show ?thesis by (simp add: power2_eq_square)
  qed
  have x2u: "x\<^sup>2 \<le> 10 ^ 6"
    using mult_le_pow10[of x x 3 3] x0 xu by (simp add: power2_eq_square)
  have P: "fpowi Float64 (Fin x) 2 = Fin (x\<^sup>2)"
  proof -
    have "rnd Float64 (x\<^sup>2) = Fin (x\<^sup>2)" using x2l x2u by (rule rnd64_pow10) simp_all
    then show ?thesis by simp
  qed
  have N: "fmul Float64 (Fin (x\<^sup>2)) (Fin (exp x)) = Fin (x\<^sup>2 * exp x)"
  proof -
    have "1 / 10 ^ 0 \<le> x\<^sup>2 * exp x" using mult_ge_pow10[OF x2l e1] by simp
    moreover have "x\<^sup>2 * exp x \<le> 10 ^ 271"
      using mult_le_pow10[of "x\<^sup>2" "exp x" 6 265] x2u eu by simp
    ultimately have "rnd Float64 (x\<^sup>2 * exp x) = Fin (x\<^sup>2 * exp x)"
      by (rule rnd64_pow10) simp_all
    then show ?thesis by simp
  qed
  have ml: "(2::real) ^ 512 \<le> exp x - 1"
  proof -
    have "(2::real) ^ 528 = 2 ^ 16 * 2 ^ 512" by (simp flip: power_add)
    moreover have "(1::real) \<le> 2 ^ 512" by (rule one_le_power) simp
    ultimately show ?thesis using el by simp
  qed
  have M: "fexpm1 Float64 (Fin x) = Fin (exp x - 1)"
  proof -
    have "(1 / 10 ^ 0 :: real) \<le> 2 ^ 512" by (simp add: one_le_power)
    with ml have "1 / 10 ^ 0 \<le> exp x - 1" by linarith
    moreover have "exp x - 1 \<le> 10 ^ 265" using eu by linarith
    ultimately have "rnd Float64 (exp x - 1) = Fin (exp x - 1)"
      by (rule rnd64_pow10) simp_all
    then show ?thesis by simp
  qed
  have D: "fpowi Float64 (Fin (exp x - 1)) 2 = PInf"
  proof -
    have "((2::real) ^ 512)\<^sup>2 \<le> (exp x - 1)\<^sup>2" using ml by (intro power_mono) simp_all
    then have "(2::real) ^ 1024 \<le> (exp x - 1)\<^sup>2" by (simp flip: power_mult)
    then show ?thesis by (simp add: rnd64_overflow)
  qed
  show ?thesis
    unfolding cmb_scaling_at_def Let_def X P E N M D by simp
qed

text \<open>Counterexample to claim C4 as first stated. At the positive frequencies
  \<open>3 \<sqdot> 10\<^sup>1\<^sup>3 Hz\<close> and \<open>10\<^sup>1\<^sup>4 Hz\<close> the scaling is zero and nan: the square of \<^verbatim>\<open>expm1\<close>
  overflows at the first, \<^verbatim>\<open>exp\<close> itself at the second.\<close>

theorem cmb_positive_finite_counterexample:
  "cmb_get_freq_scaling (Arr [Arr [Scal 1]]) (Arr [Scal (3 * 10 ^ 13), Scal (10 ^ 14)])
     = Arr [Arr [Scal (Fin 0), Scal NaN]] \<and>
   (0::real) < 3 * 10 ^ 13 \<and> (0::real) < 10 ^ 14"
  apply (simp only: cmb_get_freq_scaling_def expand_dims0_def Let_def nd.map list.map
      cmb_scaling_at_3e13 cmb_scaling_at_1e14)
  apply simp
  done

subsection \<open>Spinning dust\<close>

lemma fold_min_Min: "fold min xs (x::real) = Min (set (x # xs))"
  by (simp only: Min.set_eq_fold)

lemma fold_max_Max: "fold max xs (x::real) = Max (set (x # xs))"
  by (simp only: Max.set_eq_fold)

lemma interp_scan_segment:
  "sorted_wrt (<) (map fst (p # rest)) \<Longrightarrow> Suc i < length (p # rest) \<Longrightarrow>
   fst ((p # rest) ! i) \<le> x \<Longrightarrow> x < fst ((p # rest) ! Suc i) \<Longrightarrow>
   interp_scan x p rest = linear_between ((p # rest) ! i) ((p # rest) ! Suc i) x"
proof (induction rest arbitrary: p i)
  case Nil
  then show ?case by simp
next
  case (Cons q rest)
  obtain x0 y0 where p: "p = (x0, y0)" by (cases p)
  obtain x1 y1 where q: "q = (x1, y1)" by (cases q)
  show ?case
  proof (cases i)
    case 0
    with Cons.prems p q show ?thesis
      by (simp add: linear_between_def)
  next
    case (Suc j)
    have "fst q \<le> fst ((q # rest) ! j)"
    proof (cases j)
      case 0
      then show ?thesis by simp
    next
      case (Suc k)
      with Cons.prems(2) \<open>i = Suc j\<close> have "rest ! k \<in> set rest" by simp
      with Cons.prems(1) have "fst q < fst (rest ! k)" by auto
      with Suc show ?thesis by simp
    qed
    with Cons.prems(3) Suc have nlt: "\<not> x < x1" using q by simp
    have "interp_scan x q rest = linear_between ((q # rest) ! j) ((q # rest) ! Suc j) x"
      using Cons.prems Suc by (intro Cons.IH) simp_all
    with nlt p q Suc show ?thesis by simp
  qed
qed

lemma interp_scan_right:
  "sorted_wrt (<) (map fst (p # rest)) \<Longrightarrow> fst (last (p # rest)) \<le> x \<Longrightarrow>
   interp_scan x p rest = snd (last (p # rest))"
proof (induction rest arbitrary: p)
  case Nil
  then show ?case by (cases p) simp
next
  case (Cons q rest)
  obtain x0 y0 where p: "p = (x0, y0)" by (cases p)
  obtain x1 y1 where q: "q = (x1, y1)" by (cases q)
  have "fst q \<le> fst (last (q # rest))"
  proof (cases rest)
    case Nil
    then show ?thesis by simp
  next
    case (Cons r rs)
    then have "last (q # rest) \<in> set rest" by simp
    with Cons.prems(1) show ?thesis by auto
  qed
  with Cons.prems(2) q have nlt: "\<not> x < x1" by simp
  have "interp_scan x q rest = snd (last (q # rest))"
    using Cons.prems by (intro Cons.IH) simp_all
  with nlt p q show ?case by simp
qed

lemma np_interp_linear:
  assumes "sorted_wrt (<) (map fst (p # rest))"
  shows "(x \<le> fst p \<longrightarrow> np_interp x p rest = snd p) \<and>
         (fst (last (p # rest)) \<le> x \<longrightarrow> np_interp x p rest = snd (last (p # rest))) \<and>
         (\<forall>i. Suc i < length (p # rest) \<and> fst ((p # rest) ! i) \<le> x \<and> x < fst ((p # rest) ! Suc i)
            \<longrightarrow> np_interp x p rest = linear_between ((p # rest) ! i) ((p # rest) ! Suc i) x)"
proof (intro conjI allI impI)
  show "np_interp x p rest = snd p" if "x \<le> fst p"
    using that by (simp add: np_interp_def)
next
  assume r: "fst (last (p # rest)) \<le> x"
  show "np_interp x p rest = snd (last (p # rest))"
  proof (cases "x \<le> fst p")
    case False
    then show ?thesis using interp_scan_right[OF assms r] by (simp add: np_interp_def)
  next
    case True
    show ?thesis
    proof (cases rest)
      case Nil
      with True show ?thesis by (simp add: np_interp_def)
    next
      case (Cons q qs)
      then have "last (p # rest) \<in> set rest" by simp
      with assms have "fst p < fst (last (p # rest))" by auto
      with r True show ?thesis by simp
    qed
  qed
next
  fix i
  assume a: "Suc i < length (p # rest) \<and> fst ((p # rest) ! i) \<le> x \<and> x < fst ((p # rest) ! Suc i)"
  then have seg: "interp_scan x p rest = linear_between ((p # rest) ! i) ((p # rest) ! Suc i) x"
    using interp_scan_segment[OF assms] by blast
  show "np_interp x p rest = linear_between ((p # rest) ! i) ((p # rest) ! Suc i) x"
  proof (cases "x \<le> fst p")
    case False
    with seg show ?thesis by (simp add: np_interp_def)
  next
    case True
    have "fst p \<le> fst ((p # rest) ! i)"
    proof (cases i)
      case 0
      then show ?thesis by simp
    next
      case (Suc k)
      with a have "rest ! k \<in> set rest" by simp
      with assms Suc show ?thesis by auto
    qed
    with a True have x: "x = fst p" and i0: "fst ((p # rest) ! i) = fst p" by auto
    have "i = 0"
    proof (rule ccontr)
      assume "i \<noteq> 0"
      then obtain k where k: "i = Suc k" by (cases i) auto
      with a have "rest ! k \<in> set rest" by simp
      with assms have "fst p < fst (rest ! k)" by auto
      with i0 k show False by simp
    qed
    with x show ?thesis by (simp add: np_interp_def linear_between_def)
  qed
qed

lemma ame_zero:
  assumes "\<exists>f \<in> set freq. f * (30 * 10 ^ 9 / nu_p) \<le> Min (set (map fst (p # rest)))
             \<or> Max (set (map fst (p # rest))) \<le> f * (30 * 10 ^ 9 / nu_p)"
  shows "ame_get_freq_scaling (p # rest) freq freq_ref nu_p = Inr Zero_scalar"
proof -
  have "\<not> list_all (\<lambda>f. f * (30 * 10 ^ 9 / nu_p) > fold min (map fst rest) (fst p)
            \<and> f * (30 * 10 ^ 9 / nu_p) < fold max (map fst rest) (fst p)) freq"
    using assms unfolding fold_min_Min fold_max_Max list_all_iff
    by (simp only: list.map list.set not_less) (meson leD)
  then show ?thesis
    by (simp add: ame_get_freq_scaling_def Let_def)
qed

lemma ame_ratio:
  assumes "\<forall>f \<in> set freq. Min (set (map fst (p # rest))) < f * (30 * 10 ^ 9 / nu_p)
             \<and> f * (30 * 10 ^ 9 / nu_p) < Max (set (map fst (p # rest)))"
  shows "ame_get_freq_scaling (p # rest) freq freq_ref nu_p =
     Inr (Scaling (map (\<lambda>f. np_interp (f * (30 * 10 ^ 9 / nu_p)) p rest
                             / np_interp (freq_ref * (30 * 10 ^ 9 / nu_p)) p rest) freq))"
proof -
  have "list_all (\<lambda>f. f * (30 * 10 ^ 9 / nu_p) > fold min (map fst rest) (fst p)
            \<and> f * (30 * 10 ^ 9 / nu_p) < fold max (map fst rest) (fst p)) freq"
    using assms unfolding fold_min_Min fold_max_Max list_all_iff
    by (simp only: list.map list.set)
  then show ?thesis
    by (simp add: ame_get_freq_scaling_def Let_def comp_def)
qed

lemma example_interp: "np_interp (15 * 10 ^ 9) (10 * 10 ^ 9, 1) [(20 * 10 ^ 9, 2)] = 3 / 2"
  by (simp add: np_interp_def)

text \<open>Claim C1, amended. For every array of frequencies \<open>freq\<close>, every \<open>nu_p \<noteq> 0\<close> with
  \<open>peak_scale = 30 GHz / nu_p\<close>, and a non-empty template: if some element of
  \<open>freq * peak_scale\<close> is not strictly between the least and the greatest template
  frequency (the end points count as outside), the result is the scalar zero; otherwise,
  whatever \<open>freq_ref * peak_scale\<close> is, the result is elementwise \<^verbatim>\<open>np.interp\<close> of the
  template at \<open>freq * peak_scale\<close> divided by \<^verbatim>\<open>np.interp\<close> at \<open>freq_ref * peak_scale\<close>. On an
  increasing template \<^verbatim>\<open>np.interp\<close> is the linear interpolation between neighbouring
  template points, and the first or last template value at and beyond the ends; the
  template \<open>(10 GHz, 1), (20 GHz, 2)\<close> gives 1.5 at 15 GHz. An empty template raises
  \<^verbatim>\<open>ValueError\<close>.\<close>

theorem ame_scaling_amended:
  assumes "nu_p \<noteq> 0"
  shows
  "ame_get_freq_scaling [] freq freq_ref nu_p = Inl ValueError \<and>
   ((\<exists>f \<in> set freq. f * (30 * 10 ^ 9 / nu_p) \<le> Min (set (map fst (p # rest)))
        \<or> Max (set (map fst (p # rest))) \<le> f * (30 * 10 ^ 9 / nu_p)) \<longrightarrow>
      ame_get_freq_scaling (p # rest) freq freq_ref nu_p = Inr Zero_scalar) \<and>
   ((\<forall>f \<in> set freq. Min (set (map fst (p # rest))) < f * (30 * 10 ^ 9 / nu_p)
        \<and> f * (30 * 10 ^ 9 / nu_p) < Max (set (map fst (p # rest)))) \<longrightarrow>
      ame_get_freq_scaling (p # rest) freq freq_ref nu_p =
        Inr (Scaling (map (\<lambda>f. np_interp (f * (30 * 10 ^ 9 / nu_p)) p rest
                                / np_interp (freq_ref * (30 * 10 ^ 9 / nu_p)) p rest) freq))) \<and>
   (sorted_wrt (<) (map fst (p # rest)) \<longrightarrow>
      (x \<le> fst p \<longrightarrow> np_interp x p rest = snd p) \<and>
      (fst (last (p # rest)) \<le> x \<longrightarrow> np_interp x p rest = snd (last (p # rest))) \<and>
      (\<forall>i. Suc i < length (p # rest) \<and> fst ((p # rest) ! i) \<le> x \<and> x < fst ((p # rest) ! Suc i)
         \<longrightarrow> np_interp x p rest = linear_between ((p # rest) ! i) ((p # rest) ! Suc i) x)) \<and>
   np_interp (15 * 10 ^ 9) (10 * 10 ^ 9, 1) [(20 * 10 ^ 9, 2)] = 3 / 2"
proof (intro conjI impI)
  show "ame_get_freq_scaling [] freq freq_ref nu_p = Inl ValueError"
    by (simp add: ame_get_freq_scaling_def)
next
  assume "\<exists>f \<in> set freq. f * (30 * 10 ^ 9 / nu_p) \<le> Min (set (map fst (p # rest)))
        \<or> Max (set (map fst (p # rest))) \<le> f * (30 * 10 ^ 9 / nu_p)"
  then show "ame_get_freq_scaling (p # rest) freq freq_ref nu_p = Inr Zero_scalar"
    by (rule ame_zero)
next
  assume "\<forall>f \<in> set freq. Min (set (map fst (p # rest))) < f * (30 * 10 ^ 9 / nu_p)
        \<and> f * (30 * 10 ^ 9 / nu_p) < Max (set (map fst (p # rest)))"
  then show "ame_get_freq_scaling (p # rest) freq freq_ref nu_p =
        Inr (Scaling (map (\<lambda>f. np_interp (f * (30 * 10 ^ 9 / nu_p)) p rest
                                / np_interp (freq_ref * (30 * 10 ^ 9 / nu_p)) p rest) freq))"
    by (rule ame_ratio)
next
  assume s: "sorted_wrt (<) (map fst (p # rest))"
  show "x \<le> fst p \<Longrightarrow> np_interp x p rest = snd p"
    using np_interp_linear[OF s, of x] by blast
  show "fst (last (p # rest)) \<le> x \<Longrightarrow> np_interp x p rest = snd (last (p # rest))"
    using np_interp_linear[OF s, of x] by blast
  show "\<forall>i. Suc i < length (p # rest) \<and> fst ((p # rest) ! i) \<le> x \<and> x < fst ((p # rest) ! Suc i)
         \<longrightarrow> np_interp x p rest = linear_between ((p # rest) ! i) ((p # rest) ! Suc i) x"
    using np_interp_linear[OF s, of x] by blast
next
  show "np_interp (15 * 10 ^ 9) (10 * 10 ^ 9, 1) [(20 * 10 ^ 9, 2)] = 3 / 2"
    by (rule example_interp)
qed

theorem ame_scaling_amended_witness:
  "(30 * 10 ^ 9 :: real) \<noteq> 0 \<and>
   ame_get_freq_scaling [(10 * 10 ^ 9, 1), (20 * 10 ^ 9, 2)] [15 * 10 ^ 9, 12 * 10 ^ 9]
     (12 * 10 ^ 9) (30 * 10 ^ 9) = Inr (Scaling [5 / 4, 1]) \<and>
   ame_get_freq_scaling [(10 * 10 ^ 9, 1), (20 * 10 ^ 9, 2)] [15 * 10 ^ 9, 20 * 10 ^ 9]
     (12 * 10 ^ 9) (30 * 10 ^ 9) = Inr Zero_scalar"
proof -
  have n: "(30 * 10 ^ 9 :: real) \<noteq> 0" by simp
  note t = ame_scaling_amended[OF n, where p = "(10 * 10 ^ 9, 1)" and rest = "[(20 * 10 ^ 9, 2)]"
      and freq_ref = "12 * 10 ^ 9"]
  have 1: "ame_get_freq_scaling [(10 * 10 ^ 9, 1), (20 * 10 ^ 9, 2)] [15 * 10 ^ 9, 12 * 10 ^ 9]
     (12 * 10 ^ 9) (30 * 10 ^ 9) = Inr (Scaling [5 / 4, 1])"
    using t[where freq = "[15 * 10 ^ 9, 12 * 10 ^ 9]"] by (simp add: np_interp_def)
  have 2: "ame_get_freq_scaling [(10 * 10 ^ 9, 1), (20 * 10 ^ 9, 2)] [15 * 10 ^ 9, 20 * 10 ^ 9]
     (12 * 10 ^ 9) (30 * 10 ^ 9) = Inr Zero_scalar"
    using t[where freq = "[15 * 10 ^ 9, 20 * 10 ^ 9]"] by simp
  from n 1 2 show ?thesis by simp
qed

text \<open>Counterexample to claim C1 as first stated. With the template \<open>(10 GHz, 1), (20 GHz, 2)\<close>
  and \<open>nu_p = 30 GHz\<close>: at \<open>freq = 10 GHz\<close>, \<open>freq_ref = 15 GHz\<close> both scaled frequencies lie
  in the closed interval, yet the result is the scalar zero and not the ratio \<open>2/3\<close>; at
  \<open>freq = 15 GHz\<close>, \<open>freq_ref = 25 GHz\<close> the scaled reference frequency lies outside, yet
  the result is the ratio \<open>3/4\<close> and not zero.\<close>

theorem ame_closed_interval_counterexample:
  "ame_get_freq_scaling [(10 * 10 ^ 9, 1), (20 * 10 ^ 9, 2)] [10 * 10 ^ 9] (15 * 10 ^ 9) (30 * 10 ^ 9)
     = Inr Zero_scalar \<and>
   (10 * 10 ^ 9 * (30 * 10 ^ 9 / (30 * 10 ^ 9)) :: real) \<in> {10 * 10 ^ 9 .. 20 * 10 ^ 9} \<and>
   (15 * 10 ^ 9 * (30 * 10 ^ 9 / (30 * 10 ^ 9)) :: real) \<in> {10 * 10 ^ 9 .. 20 * 10 ^ 9} \<and>
   np_interp (10 * 10 ^ 9) (10 * 10 ^ 9, 1) [(20 * 10 ^ 9, 2)]
     / np_interp (15 * 10 ^ 9) (10 * 10 ^ 9, 1) [(20 * 10 ^ 9, 2)] = 2 / 3 \<and>
   ame_get_freq_scaling [(10 * 10 ^ 9, 1), (20 * 10 ^ 9, 2)] [15 * 10 ^ 9] (25 * 10 ^ 9) (30 * 10 ^ 9)
     = Inr (Scaling [3 / 4]) \<and>
   (25 * 10 ^ 9 * (30 * 10 ^ 9 / (30 * 10 ^ 9)) :: real) \<notin> {10 * 10 ^ 9 .. 20 * 10 ^ 9}"
  by (simp add: ame_get_freq_scaling_def np_interp_def Let_def)

section \<open>The CMB dipole\<close>

lemma map2_add_sub: "length b = length a \<Longrightarrow> map2 (+) b (map2 (-) a b) = (a :: real list)"
  by (induction a b rule: list_induct2') auto

text \<open>Claim C5. Once a dipole has been removed, \<^verbatim>\<open>get_dipole\<close> returns the cached dipole for
  any \<open>gal_cut\<close>, warns that \<open>gal_cut\<close> is overridden, and leaves the component as it is, so
  every later call does the same. \<^verbatim>\<open>remove_dipole\<close> followed by \<^verbatim>\<open>get_dipole\<close> round-trips
  (healpy's fit returning a map of the size of its argument): the dipole returned is the
  original intensity map minus the intensity map after removal, and adding it to the stored
  intensity map gives the original; the other Stokes rows are untouched.\<close>

theorem dipole_roundtrip:
  "(cmb_dipole self = Some d \<longrightarrow> get_dipole fit self gal_cut = Inr (d, [dipole_warning], self)) \<and>
   (cmb_amp self = amp0 # rest \<and> length (fit amp0 g) = length amp0 \<longrightarrow>
      (\<exists>self' dip.
         remove_dipole fit self g = Inr self' \<and>
         get_dipole fit self' gal_cut = Inr (dip, [dipole_warning], self') \<and>
         dip = map2 (-) amp0 (hd (cmb_amp self')) \<and>
         map2 (+) (hd (cmb_amp self')) dip = amp0 \<and>
         tl (cmb_amp self') = rest))"
  by (simp add: get_dipole_def remove_dipole_def Let_def map2_add_sub)

theorem dipole_roundtrip_witness:
  "get_dipole (\<lambda>m g. map (\<lambda>v. v - 1) m) \<lparr>cmb_amp = [[5, 7]], cmb_dipole = Some [1, 2]\<rparr> 30
     = Inr ([1, 2], [dipole_warning], \<lparr>cmb_amp = [[5, 7]], cmb_dipole = Some [1, 2]\<rparr>) \<and>
   (\<exists>self' dip.
      remove_dipole (\<lambda>m g. map (\<lambda>v. v - 1) m) \<lparr>cmb_amp = [[5, 7], [0, 0]], cmb_dipole = None\<rparr> 10
        = Inr self' \<and>
      get_dipole (\<lambda>m g. map (\<lambda>v. v - 1) m) self' 30 = Inr (dip, [dipole_warning], self') \<and>
      dip = map2 (-) [5, 7] (hd (cmb_amp self')) \<and>
      map2 (+) (hd (cmb_amp self')) dip = [5, 7] \<and>
      tl (cmb_amp self') = [[0, 0]])"
  using dipole_roundtrip[of "\<lparr>cmb_amp = [[5, 7]], cmb_dipole = Some [1, 2]\<rparr>" "[1, 2]"
          "\<lambda>m g. map (\<lambda>v. v - 1) m" 30]
        dipole_roundtrip[of "\<lparr>cmb_amp = [[5, 7], [0, 0]], cmb_dipole = None\<rparr>" d
          "\<lambda>m g. map (\<lambda>v. v - 1) m" 30 "[5, 7]" "[[0, 0]]" 10]
  by simp

text \<open>Claim C10. On a component whose dipole was never removed, \<^verbatim>\<open>get_dipole\<close> returns the
  fitted dipole (the intensity map minus healpy's dipole-free map for the given \<open>gal_cut\<close>)
  without a warning and leaves the component unchanged: the amplitude map is the same and
  no dipole is cached. A second call therefore fits afresh with its own \<open>gal_cut\<close>.\<close>

theorem get_dipole_frame:
  "cmb_dipole self = None \<and> cmb_amp self = amp0 # rest \<longrightarrow>
     get_dipole fit self g1 = Inr (map2 (-) amp0 (fit amp0 g1), [], self) \<and>
     (case get_dipole fit self g1 of
        Inl e \<Rightarrow> False
      | Inr (dip, warnings, self') \<Rightarrow>
          self' = self \<and> cmb_amp self' = cmb_amp self \<and> cmb_dipole self' = None \<and>
          get_dipole fit self' g2 = Inr (map2 (-) amp0 (fit amp0 g2), [], self))"
  by (simp add: get_dipole_def Let_def)

theorem get_dipole_frame_witness:
  "get_dipole (\<lambda>m g. map (\<lambda>v. v - g) m) \<lparr>cmb_amp = [[5, 7]], cmb_dipole = None\<rparr> 10
     = Inr ([10, 10], [], \<lparr>cmb_amp = [[5, 7]], cmb_dipole = None\<rparr>) \<and>
   (case get_dipole (\<lambda>m g. map (\<lambda>v. v - g) m) \<lparr>cmb_amp = [[5, 7]], cmb_dipole = None\<rparr> 10 of
      Inl e \<Rightarrow> False
    | Inr (dip, warnings, self') \<Rightarrow>
        get_dipole (\<lambda>m g. map (\<lambda>v. v - g) m) self' 30
          = Inr ([30, 30], [], \<lparr>cmb_amp = [[5, 7]], cmb_dipole = None\<rparr>))"
  using get_dipole_frame[of "\<lparr>cmb_amp = [[5, 7]], cmb_dipole = None\<rparr>" "[5, 7]" "[]"
          "\<lambda>m g. map (\<lambda>v. v - g) m" 10 30]
  by (simp split: sum.splits prod.splits)

end
